theory Spec2Isabelle
  imports Complex_Main "HOL-Library.Sublist" "HOL-Library.Multiset"
begin

section \<open>Strings\<close>

text \<open>
  Python \<open>str\<close> values are modelled as \<open>string\<close> restricted to ASCII, and Python
  floats as \<open>real\<close> (products and sums are the exact ones).  \<open>lower\<close> is
  \<open>str.lower()\<close>, \<open>contains q s\<close> is \<open>q in s\<close>, \<open>split_ws\<close> is \<open>str.split()\<close>
  without arguments and \<open>join_sp\<close> is \<open>' '.join(...)\<close>.
\<close>

definition lower_char :: "char \<Rightarrow> char" where
  "lower_char c =
     (case map_of (zip ''ABCDEFGHIJKLMNOPQRSTUVWXYZ'' ''abcdefghijklmnopqrstuvwxyz'') c of
        Some d \<Rightarrow> d
      | None \<Rightarrow> c)"

definition lower :: "string \<Rightarrow> string" where
  "lower s = map lower_char s"

fun contains :: "string \<Rightarrow> string \<Rightarrow> bool" where
  "contains q [] = (q = [])"
| "contains q (c # cs) = (prefix q (c # cs) \<or> contains q cs)"

definition is_space :: "char \<Rightarrow> bool" where
  "is_space c = (c \<in> set [CHR '' '', CHR 0x09, CHR 0x0A, CHR 0x0B, CHR 0x0C, CHR 0x0D,
                           CHR 0x1C, CHR 0x1D, CHR 0x1E, CHR 0x1F])"

text \<open>\<open>split_acc cur s\<close> scans \<open>s\<close> with the word read so far (reversed) in \<open>cur\<close>.\<close>

fun split_acc :: "string \<Rightarrow> string \<Rightarrow> string list" where
  "split_acc cur [] = (if cur = [] then [] else [rev cur])"
| "split_acc cur (c # cs) =
     (if is_space c then (if cur = [] then split_acc [] cs else rev cur # split_acc [] cs)
      else split_acc (c # cur) cs)"

definition split_ws :: "string \<Rightarrow> string list" where
  "split_ws s = split_acc [] s"

fun join_sp :: "string list \<Rightarrow> string" where
  "join_sp [] = []"
| "join_sp [x] = x"
| "join_sp (x # y # ys) = x @ '' '' @ join_sp (y # ys)"

text \<open>Truthiness of an optional string: \<open>None\<close> and the empty string are falsy.\<close>

fun truthy :: "string option \<Rightarrow> bool" where
  "truthy None = False"
| "truthy (Some s) = (s \<noteq> [])"

text \<open>Python's \<open>a or b\<close> on optional strings, and \<open>a or "default"\<close>.\<close>

definition or_opt :: "string option \<Rightarrow> string option \<Rightarrow> string option" where
  "or_opt a b = (if truthy a then a else b)"

definition or_str :: "string option \<Rightarrow> string \<Rightarrow> string" where
  "or_str a d = (case a of Some s \<Rightarrow> (if s \<noteq> [] then s else d) | None \<Rightarrow> d)"

text \<open>The slice \<open>xs[:n]\<close>; a negative \<open>n\<close> counts from the end.\<close>

definition py_take :: "int \<Rightarrow> 'a list \<Rightarrow> 'a list" where
  "py_take n xs = (if 0 \<le> n then take (nat n) xs else take (length xs - nat (- n)) xs)"

section \<open>Enumerations (models/enums.py)\<close>

datatype Scope = SCOPE_1 | SCOPE_2 | SCOPE_3

datatype Scope1Category =
  STATIONARY_COMBUSTION | MOBILE_COMBUSTION | FUGITIVE_EMISSIONS | PROCESS_EMISSIONS

datatype Scope2Method = LOCATION_BASED | MARKET_BASED

datatype Scope3Category =
  PURCHASED_GOODS_SERVICES | CAPITAL_GOODS | FUEL_ENERGY_ACTIVITIES | UPSTREAM_TRANSPORT
| WASTE | BUSINESS_TRAVEL | EMPLOYEE_COMMUTING | UPSTREAM_LEASED_ASSETS
| DOWNSTREAM_TRANSPORT | PROCESSING_SOLD_PRODUCTS | USE_OF_SOLD_PRODUCTS
| END_OF_LIFE_SOLD_PRODUCTS | DOWNSTREAM_LEASED_ASSETS | FRANCHISES | INVESTMENTS

datatype GasType = CO2 | CH4 | N2O | HFC | PFC | SF6 | NF3 | CO2E

fun gas_value :: "GasType \<Rightarrow> string" where
  "gas_value CO2 = ''co2''"
| "gas_value CH4 = ''ch4''"
| "gas_value N2O = ''n2o''"
| "gas_value HFC = ''hfc''"
| "gas_value PFC = ''pfc''"
| "gas_value SF6 = ''sf6''"
| "gas_value NF3 = ''nf3''"
| "gas_value CO2E = ''co2e''"

datatype GWPAssessment = AR5 | AR6

datatype FactorSource = EPA_HUB | EGRID | DEFRA | USEEIO | EMBER | EXIOBASE | CUSTOM

fun source_value :: "FactorSource \<Rightarrow> string" where
  "source_value EPA_HUB = ''epa_hub''"
| "source_value EGRID = ''egrid''"
| "source_value DEFRA = ''defra''"
| "source_value USEEIO = ''useeio''"
| "source_value EMBER = ''ember''"
| "source_value EXIOBASE = ''exiobase''"
| "source_value CUSTOM = ''custom''"

datatype FuelType =
  NATURAL_GAS | DIESEL | GASOLINE | PROPANE | FUEL_OIL_NO2 | FUEL_OIL_NO6 | KEROSENE | LPG
| COAL_BITUMINOUS | COAL_ANTHRACITE | COAL_SUBBITUMINOUS | WOOD | LANDFILL_GAS | JET_FUEL
| AVIATION_GASOLINE | RESIDUAL_FUEL_OIL | E85 | B20 | CNG | LNG

fun fuel_value :: "FuelType \<Rightarrow> string" where
  "fuel_value NATURAL_GAS = ''natural_gas''"
| "fuel_value DIESEL = ''diesel''"
| "fuel_value GASOLINE = ''gasoline''"
| "fuel_value PROPANE = ''propane''"
| "fuel_value FUEL_OIL_NO2 = ''fuel_oil_no2''"
| "fuel_value FUEL_OIL_NO6 = ''fuel_oil_no6''"
| "fuel_value KEROSENE = ''kerosene''"
| "fuel_value LPG = ''lpg''"
| "fuel_value COAL_BITUMINOUS = ''coal_bituminous''"
| "fuel_value COAL_ANTHRACITE = ''coal_anthracite''"
| "fuel_value COAL_SUBBITUMINOUS = ''coal_subbituminous''"
| "fuel_value WOOD = ''wood''"
| "fuel_value LANDFILL_GAS = ''landfill_gas''"
| "fuel_value JET_FUEL = ''jet_fuel''"
| "fuel_value AVIATION_GASOLINE = ''aviation_gasoline''"
| "fuel_value RESIDUAL_FUEL_OIL = ''residual_fuel_oil''"
| "fuel_value E85 = ''e85''"
| "fuel_value B20 = ''b20''"
| "fuel_value CNG = ''cng''"
| "fuel_value LNG = ''lng''"

section \<open>Errors\<close>

text \<open>
  \<open>get_gwp\<close> raises \<open>KeyError\<close>; every other failure of the calculators is a Python
  \<open>ValueError\<close>, told apart only by its message.  Each \<open>raise\<close> site is one
  constructor carrying the values interpolated into the message; \<open>error_kind\<close> sorts
  the sites by what the message reports.
\<close>

datatype error =
  UnknownGas string
| NoFactorStationary "string option" string
| NoFactorMobile "string option" "string option" string
| NoFactorProcess
| NoFactorFugitive
| UnknownRefrigerant string
| NoFactorElectricity "string option"
| Scope3CategoryRequired
| NoFactorSpend "string option"
| NoFactorDistance string string
| NoFactorWaste string string
| NoFactorActivity Scope3Category string
| CannotConvert string string
| CannotDetermineScope1

datatype error_class = UnknownGasKind | NoMatchingFactor | UnitConversionError | ValidationError

fun error_kind :: "error \<Rightarrow> error_class" where
  "error_kind (UnknownGas _) = UnknownGasKind"
| "error_kind (CannotConvert _ _) = UnitConversionError"
| "error_kind Scope3CategoryRequired = ValidationError"
| "error_kind CannotDetermineScope1 = ValidationError"
| "error_kind _ = NoMatchingFactor"

section \<open>GWP tables (factors/gwp.py)\<close>

definition AR5_GWP :: "(string \<times> real) list" where
  "AR5_GWP =
    [(''co2'', 1), (''ch4'', 28), (''n2o'', 265), (''sf6'', 23500), (''nf3'', 16100),
     (''hfc-23'', 12400), (''hfc-32'', 677), (''hfc-125'', 3170), (''hfc-134a'', 1300),
     (''hfc-143a'', 4800), (''hfc-152a'', 138), (''hfc-227ea'', 3350), (''hfc-236fa'', 8060),
     (''hfc-245fa'', 858), (''hfc-365mfc'', 804), (''hfc-43-10mee'', 1650),
     (''cf4'', 6630), (''c2f6'', 11100), (''c3f8'', 8900), (''c4f10'', 9200),
     (''c5f12'', 8550), (''c6f14'', 7910),
     (''r-404a'', 3922), (''r-407a'', 2107), (''r-407c'', 1774), (''r-410a'', 2088),
     (''r-507a'', 3985), (''r-508b'', 13396)]"

definition AR6_GWP :: "(string \<times> real) list" where
  "AR6_GWP =
    [(''co2'', 1), (''ch4'', 279 / 10), (''n2o'', 273), (''sf6'', 25200), (''nf3'', 17400),
     (''hfc-23'', 14600), (''hfc-32'', 771), (''hfc-125'', 3740), (''hfc-134a'', 1530),
     (''hfc-143a'', 5810), (''hfc-152a'', 164), (''hfc-227ea'', 3600), (''hfc-236fa'', 8690),
     (''hfc-245fa'', 962), (''hfc-365mfc'', 914), (''hfc-43-10mee'', 1600),
     (''cf4'', 7380), (''c2f6'', 12400), (''c3f8'', 9290), (''c4f10'', 10000),
     (''c5f12'', 9220), (''c6f14'', 8620),
     (''r-404a'', 4728), (''r-407a'', 2446), (''r-407c'', 2088), (''r-410a'', 2256),
     (''r-507a'', 4728), (''r-508b'', 14760)]"

fun GWP_TABLES :: "GWPAssessment \<Rightarrow> (string \<rightharpoonup> real)" where
  "GWP_TABLES AR5 = map_of AR5_GWP"
| "GWP_TABLES AR6 = map_of AR6_GWP"

text \<open>The argument of \<open>get_gwp\<close> is a \<open>str\<close> or a \<open>GasType\<close> member.\<close>

datatype gas_id = GasStr string | GasEnum GasType

fun gas_key :: "gas_id \<Rightarrow> string" where
  "gas_key (GasEnum g) = gas_value g"
| "gas_key (GasStr s) = lower s"

definition get_gwp :: "gas_id \<Rightarrow> GWPAssessment \<Rightarrow> error + real" where
  "get_gwp gas assessment =
     (let table = GWP_TABLES assessment; key = gas_key gas in
      if key = ''co2e'' then Inr 1
      else (case table key of
              None \<Rightarrow> Inl (UnknownGas key)
            | Some v \<Rightarrow> Inr v))"

definition to_co2e :: "real \<Rightarrow> gas_id \<Rightarrow> GWPAssessment \<Rightarrow> error + real" where
  "to_co2e mass_kg gas assessment =
     (case get_gwp gas assessment of Inl e \<Rightarrow> Inl e | Inr g \<Rightarrow> Inr (mass_kg * g))"

section \<open>Data model (models/factors.py, models/activity.py, models/results.py)\<close>

text \<open>
  Field names carry a prefix per class (\<open>ef_\<close> for EmissionFactor, \<open>a_\<close> for
  ActivityRecord, \<open>gb_\<close> for GasBreakdown, \<open>r_\<close> for EmissionResult, \<open>sr_\<close> for
  ScopeResult, \<open>inv_\<close> for InventoryResult), since several classes share field names.
  Fields that neither the registry nor a calculator reads are left out
  (\<open>other_factors\<close>, \<open>factor_unit\<close>, \<open>year\<close>, the dates, \<open>metadata\<close>, the data-quality
  fields and the time stamp \<open>calculated_at\<close>).
\<close>

record EmissionFactor =
  ef_id :: string
  ef_name :: string
  ef_source :: FactorSource
  ef_scope :: "Scope option"
  ef_co2_factor :: real
  ef_ch4_factor :: real
  ef_n2o_factor :: real
  ef_co2e_factor :: "real option"
  ef_activity_unit :: string
  ef_category :: string
  ef_subcategory :: string
  ef_fuel_type :: "string option"
  ef_region :: "string option"
  ef_description :: string
  ef_tags :: "string list"

record ActivityRecord =
  a_id :: "string option"
  a_name :: "string option"
  a_scope :: Scope
  a_scope1_category :: "Scope1Category option"
  a_scope2_method :: "Scope2Method option"
  a_scope3_category :: "Scope3Category option"
  a_quantity :: real
  a_unit :: string
  a_fuel_type :: "FuelType option"
  a_custom_fuel :: "string option"
  a_country :: "string option"
  a_region :: "string option"
  a_grid_subregion :: "string option"
  a_custom_factor :: "real option"
  a_factor_source :: "FactorSource option"
  a_spend_amount :: "real option"
  a_naics_code :: "string option"
  a_distance :: "real option"
  a_distance_unit :: "string option"
  a_weight :: "real option"
  a_weight_unit :: "string option"
  a_vehicle_type :: "string option"
  a_transport_mode :: "string option"
  a_waste_type :: "string option"
  a_disposal_method :: "string option"
  a_refrigerant_type :: "string option"

text \<open>
  The validation of the model class: \<open>quantity\<close>, and \<open>spend_amount\<close>, \<open>distance\<close> and
  \<open>weight\<close> when given, are declared \<open>Field(gt=0)\<close>.
\<close>

definition pos_opt :: "real option \<Rightarrow> bool" where
  "pos_opt v = (case v of None \<Rightarrow> True | Some x \<Rightarrow> 0 < x)"

definition valid_activity :: "ActivityRecord \<Rightarrow> bool" where
  "valid_activity a =
     (0 < a_quantity a \<and> pos_opt (a_spend_amount a) \<and> pos_opt (a_distance a) \<and>
      pos_opt (a_weight a))"

record GasBreakdown =
  gb_gas :: GasType
  gb_mass_kg :: real
  gb_co2e_kg :: real
  gb_gwp_used :: real
  gb_gwp_assessment :: GWPAssessment

text \<open>The notes of a result are fixed texts with interpolated values; one constructor each.\<close>

datatype result_note =
  CustomFactorUsed
| CustomFactorUsedProcess
| RefrigerantNote string real
| MarketProxyNote
| SpendBasedNote real
| DistanceBasedNote string
| WasteNote string string

record EmissionResult =
  r_activity_id :: "string option"
  r_activity_name :: "string option"
  r_scope :: Scope
  r_scope1_category :: "Scope1Category option"
  r_scope2_method :: "Scope2Method option"
  r_scope3_category :: "Scope3Category option"
  r_total_co2e_kg :: real
  r_gas_breakdown :: "GasBreakdown list"
  r_factor_id :: "string option"
  r_factor_source :: "string option"
  r_activity_quantity :: "real option"
  r_activity_unit :: "string option"
  r_gwp_assessment :: GWPAssessment
  r_notes :: "result_note list"

text \<open>
  \<open>result_of a g sc tot\<close> is the constructor call shared by all calculators:
  the activity's id and name, the scope, the total and the assessment, every other field
  at its declared default.
\<close>

definition result_of :: "ActivityRecord \<Rightarrow> GWPAssessment \<Rightarrow> Scope \<Rightarrow> real \<Rightarrow> EmissionResult" where
  "result_of a g sc tot =
     \<lparr> r_activity_id = a_id a, r_activity_name = a_name a, r_scope = sc,
       r_scope1_category = None, r_scope2_method = None, r_scope3_category = None,
       r_total_co2e_kg = tot, r_gas_breakdown = [], r_factor_id = None,
       r_factor_source = None, r_activity_quantity = None, r_activity_unit = None,
       r_gwp_assessment = g, r_notes = [] \<rparr>"

record ScopeResult =
  sr_scope :: Scope
  sr_total_co2e_kg :: real
  sr_results :: "EmissionResult list"

definition new_scope_result :: "Scope \<Rightarrow> ScopeResult" where
  "new_scope_result sc = \<lparr> sr_scope = sc, sr_total_co2e_kg = 0, sr_results = [] \<rparr>"

definition scope_add_result :: "ScopeResult \<Rightarrow> EmissionResult \<Rightarrow> ScopeResult" where
  "scope_add_result sr r =
     sr \<lparr> sr_results := sr_results sr @ [r],
          sr_total_co2e_kg := sr_total_co2e_kg sr + r_total_co2e_kg r \<rparr>"

record InventoryResult =
  inv_name :: string
  inv_year :: "int option"
  inv_scope1 :: ScopeResult
  inv_scope2_location :: ScopeResult
  inv_scope2_market :: ScopeResult
  inv_scope3 :: ScopeResult

definition new_inventory :: "string \<Rightarrow> int option \<Rightarrow> InventoryResult" where
  "new_inventory name year =
     \<lparr> inv_name = name, inv_year = year,
       inv_scope1 = new_scope_result SCOPE_1,
       inv_scope2_location = new_scope_result SCOPE_2,
       inv_scope2_market = new_scope_result SCOPE_2,
       inv_scope3 = new_scope_result SCOPE_3 \<rparr>"

definition total_co2e_kg :: "InventoryResult \<Rightarrow> real" where
  "total_co2e_kg iv =
     sr_total_co2e_kg (inv_scope1 iv) + sr_total_co2e_kg (inv_scope2_location iv)
       + sr_total_co2e_kg (inv_scope3 iv)"

definition all_results :: "InventoryResult \<Rightarrow> EmissionResult list" where
  "all_results iv =
     sr_results (inv_scope1 iv) @ sr_results (inv_scope2_location iv)
       @ sr_results (inv_scope2_market iv) @ sr_results (inv_scope3 iv)"

fun add_result :: "InventoryResult \<Rightarrow> EmissionResult \<Rightarrow> InventoryResult" where
  "add_result iv r =
     (case r_scope r of
        SCOPE_1 \<Rightarrow> iv \<lparr> inv_scope1 := scope_add_result (inv_scope1 iv) r \<rparr>
      | SCOPE_2 \<Rightarrow>
          (if r_scope2_method r = Some MARKET_BASED
           then iv \<lparr> inv_scope2_market := scope_add_result (inv_scope2_market iv) r \<rparr>
           else iv \<lparr> inv_scope2_location := scope_add_result (inv_scope2_location iv) r \<rparr>)
      | SCOPE_3 \<Rightarrow> iv \<lparr> inv_scope3 := scope_add_result (inv_scope3 iv) r \<rparr>)"

text \<open>A sequence of \<open>add_result\<close> calls, in order, as in \<open>calculate_inventory\<close>.\<close>

definition add_results :: "InventoryResult \<Rightarrow> EmissionResult list \<Rightarrow> InventoryResult" where
  "add_results iv rs = foldl add_result iv rs"

section \<open>Factor registry (factors/registry.py)\<close>

text \<open>
  The registry is its list \<open>_factors\<close>, in load order.  The keyword arguments of
  \<open>search\<close> are a record; \<open>no_args\<close> holds the declared defaults.
\<close>

record search_args =
  q_query :: string
  q_source :: "FactorSource option"
  q_category :: "string option"
  q_fuel_type :: "string option"
  q_region :: "string option"
  q_scope :: "Scope option"
  q_activity_unit :: "string option"
  q_tags :: "string list option"
  q_limit :: int

definition no_args :: search_args where
  "no_args =
     \<lparr> q_query = [], q_source = None, q_category = None, q_fuel_type = None,
       q_region = None, q_scope = None, q_activity_unit = None, q_tags = None,
       q_limit = 50 \<rparr>"

text \<open>The filters of \<open>search\<close>, one per criterion, in the order of the source.\<close>

definition by_source :: "FactorSource option \<Rightarrow> EmissionFactor list \<Rightarrow> EmissionFactor list" where
  "by_source src fs =
     (case src of None \<Rightarrow> fs | Some s \<Rightarrow> filter (\<lambda>f. ef_source f = s) fs)"

definition by_category :: "string option \<Rightarrow> EmissionFactor list \<Rightarrow> EmissionFactor list" where
  "by_category cat fs =
     (case cat of None \<Rightarrow> fs | Some c \<Rightarrow> filter (\<lambda>f. ef_category f = c) fs)"

definition by_fuel_type :: "string option \<Rightarrow> EmissionFactor list \<Rightarrow> EmissionFactor list" where
  "by_fuel_type fuel fs =
     (case fuel of
        None \<Rightarrow> fs
      | Some ft \<Rightarrow>
          (let fuel_lower = lower ft in
           filter (\<lambda>f. truthy (ef_fuel_type f) \<and> lower (or_str (ef_fuel_type f) []) = fuel_lower)
             fs))"

definition by_region :: "string option \<Rightarrow> EmissionFactor list \<Rightarrow> EmissionFactor list" where
  "by_region reg fs =
     (case reg of
        None \<Rightarrow> fs
      | Some r \<Rightarrow>
          (let region_lower = lower r in
           filter (\<lambda>f. truthy (ef_region f) \<and> lower (or_str (ef_region f) []) = region_lower)
             fs))"

definition by_scope :: "Scope option \<Rightarrow> EmissionFactor list \<Rightarrow> EmissionFactor list" where
  "by_scope sc fs =
     (case sc of None \<Rightarrow> fs | Some s \<Rightarrow> filter (\<lambda>f. ef_scope f = Some s) fs)"

definition by_activity_unit :: "string option \<Rightarrow> EmissionFactor list \<Rightarrow> EmissionFactor list" where
  "by_activity_unit u fs =
     (case u of
        None \<Rightarrow> fs
      | Some au \<Rightarrow>
          (let unit_lower = lower au in
           filter (\<lambda>f. lower (ef_activity_unit f) = unit_lower) fs))"

definition by_tags :: "string list option \<Rightarrow> EmissionFactor list \<Rightarrow> EmissionFactor list" where
  "by_tags tags fs =
     (case tags of
        None \<Rightarrow> fs
      | Some ts \<Rightarrow>
          (if ts = [] then fs
           else filter (\<lambda>f. set (map lower ts) \<subseteq> set (map lower (ef_tags f))) fs))"

definition apply_filters :: "EmissionFactor list \<Rightarrow> search_args \<Rightarrow> EmissionFactor list" where
  "apply_filters fs args =
     by_tags (q_tags args)
       (by_activity_unit (q_activity_unit args)
         (by_scope (q_scope args)
           (by_region (q_region args)
             (by_fuel_type (q_fuel_type args)
               (by_category (q_category args)
                 (by_source (q_source args) fs))))))"

definition searchable :: "EmissionFactor \<Rightarrow> string" where
  "searchable f =
     ef_name f @ '' '' @ ef_description f @ '' '' @ ef_category f @ '' '' @ ef_subcategory f
       @ '' '' @ or_str (ef_fuel_type f) [] @ '' '' @ join_sp (ef_tags f)"

text \<open>The body of the scoring loop for one candidate.\<close>

definition score :: "string \<Rightarrow> EmissionFactor \<Rightarrow> int" where
  "score query_lower f =
     (let searchable_lower = lower (searchable f);
          s1 = (if contains query_lower searchable_lower then 10 else 0);
          s2 = (if contains query_lower (lower (ef_name f)) then s1 + 20 else s1);
          s3 = (if query_lower = lower (or_str (ef_fuel_type f) []) then s2 + 15 else s2)
      in foldl (\<lambda>s w. if contains w searchable_lower then s + 5 else s) s3
           (split_ws query_lower))"

text \<open>
  \<open>list.sort(key=..., reverse=True)\<close>: CPython reverses the list, sorts it stably in
  ascending order and reverses it again, so that equal keys keep their order.
\<close>

definition sort_reverse :: "('a \<Rightarrow> int) \<Rightarrow> 'a list \<Rightarrow> 'a list" where
  "sort_reverse key xs = rev (sort_key key (rev xs))"

definition rank :: "string \<Rightarrow> EmissionFactor list \<Rightarrow> EmissionFactor list" where
  "rank query fs =
     (let query_lower = lower query;
          scored = [(score query_lower f, f). f \<leftarrow> fs, 0 < score query_lower f]
      in map snd (sort_reverse fst scored))"

definition search :: "EmissionFactor list \<Rightarrow> search_args \<Rightarrow> EmissionFactor list" where
  "search fs args =
     (let results = apply_filters fs args;
          results = (if q_query args \<noteq> [] then rank (q_query args) results else results)
      in py_take (q_limit args) results)"

definition find_factor ::
  "EmissionFactor list \<Rightarrow> string \<Rightarrow> string option \<Rightarrow> string option \<Rightarrow> string option \<Rightarrow>
   FactorSource option \<Rightarrow> EmissionFactor option" where
  "find_factor fs category fuel_type region activity_unit source =
     (case search fs (no_args \<lparr> q_category := Some category, q_fuel_type := fuel_type,
                                q_region := region, q_activity_unit := activity_unit,
                                q_source := source, q_limit := 1 \<rparr>) of
        [] \<Rightarrow> None
      | f # _ \<Rightarrow> Some f)"

text \<open>\<open>results[0] if results else None\<close> after a \<open>search\<close> with \<open>limit=1\<close>.\<close>

definition first_of :: "'a list \<Rightarrow> 'a option" where
  "first_of xs = (case xs of [] \<Rightarrow> None | x # _ \<Rightarrow> Some x)"

section \<open>Unit conversion (units/converter.py)\<close>

text \<open>
  \<open>converter.convert\<close> delegates to the pint library, which is not part of the
  repository: the calculators take it as a parameter, \<open>None\<close> standing for any exception
  it raises.  \<open>convert_or_raise\<close> is the pattern
  \<open>try: converter.convert(v, a, b) except Exception: raise ValueError("Cannot convert ...")\<close>.
\<close>

type_synonym converter = "real \<Rightarrow> string \<Rightarrow> string \<Rightarrow> real option"

definition convert_or_raise :: "converter \<Rightarrow> real \<Rightarrow> string \<Rightarrow> string \<Rightarrow> error + real" where
  "convert_or_raise conv v from_unit to_unit =
     (case conv v from_unit to_unit of
        None \<Rightarrow> Inl (CannotConvert from_unit to_unit)
      | Some x \<Rightarrow> Inr x)"

section \<open>Base calculator (engine/base.py)\<close>

fun gas_entries :: "GWPAssessment \<Rightarrow> (GasType \<times> real) list \<Rightarrow> error + GasBreakdown list" where
  "gas_entries g [] = Inr []"
| "gas_entries g ((gas, mass) # rest) =
     (if 0 < mass then
        (case get_gwp (GasEnum gas) g of
           Inl e \<Rightarrow> Inl e
         | Inr gwp \<Rightarrow>
             (case to_co2e mass (GasEnum gas) g of
                Inl e \<Rightarrow> Inl e
              | Inr c \<Rightarrow>
                  (case gas_entries g rest of
                     Inl e \<Rightarrow> Inl e
                   | Inr bs \<Rightarrow>
                       Inr (\<lparr> gb_gas = gas, gb_mass_kg = mass, gb_co2e_kg = c,
                              gb_gwp_used = gwp, gb_gwp_assessment = g \<rparr> # bs))))
      else gas_entries g rest)"

definition build_gas_breakdown ::
  "GWPAssessment \<Rightarrow> real \<Rightarrow> real \<Rightarrow> real \<Rightarrow> error + GasBreakdown list" where
  "build_gas_breakdown g co2_kg ch4_kg n2o_kg =
     gas_entries g [(CO2, co2_kg), (CH4, ch4_kg), (N2O, n2o_kg)]"

definition total_co2e :: "GasBreakdown list \<Rightarrow> real" where
  "total_co2e breakdown = sum_list (map gb_co2e_kg breakdown)"

text \<open>
  The per-gas block that the combustion, electricity, process and generic Scope 3 paths
  repeat: the three masses, their breakdown and its sum.
\<close>

definition per_gas :: "GWPAssessment \<Rightarrow> real \<Rightarrow> EmissionFactor \<Rightarrow> error + (GasBreakdown list \<times> real)" where
  "per_gas g quantity factor =
     (case build_gas_breakdown g (quantity * ef_co2_factor factor)
             (quantity * ef_ch4_factor factor) (quantity * ef_n2o_factor factor) of
        Inl e \<Rightarrow> Inl e
      | Inr breakdown \<Rightarrow> Inr (breakdown, total_co2e breakdown))"

text \<open>The result of a custom factor in a Scope 1 calculator.\<close>

definition custom_result ::
  "ActivityRecord \<Rightarrow> GWPAssessment \<Rightarrow> Scope1Category \<Rightarrow> real \<Rightarrow> result_note \<Rightarrow> EmissionResult" where
  "custom_result a g cat cf nt =
     (result_of a g SCOPE_1 (a_quantity a * cf))
       \<lparr> r_scope1_category := Some cat,
         r_activity_quantity := Some (a_quantity a),
         r_activity_unit := Some (a_unit a),
         r_notes := [nt] \<rparr>"

text \<open>The result of a registry factor with a gas breakdown in a Scope 1 calculator.\<close>

definition factor_result ::
  "ActivityRecord \<Rightarrow> GWPAssessment \<Rightarrow> Scope1Category \<Rightarrow> EmissionFactor \<Rightarrow>
   GasBreakdown list \<Rightarrow> real \<Rightarrow> EmissionResult" where
  "factor_result a g cat factor breakdown tot =
     (result_of a g SCOPE_1 tot)
       \<lparr> r_scope1_category := Some cat,
         r_gas_breakdown := breakdown,
         r_factor_id := Some (ef_id factor),
         r_factor_source := Some (source_value (ef_source factor)),
         r_activity_quantity := Some (a_quantity a),
         r_activity_unit := Some (a_unit a) \<rparr>"

text \<open>\<open>activity.fuel_type.value if activity.fuel_type else activity.custom_fuel\<close>\<close>

definition fuel_key :: "ActivityRecord \<Rightarrow> string option" where
  "fuel_key a = (case a_fuel_type a of Some ft \<Rightarrow> Some (fuel_value ft) | None \<Rightarrow> a_custom_fuel a)"

section \<open>Scope 1 calculators (engine/scope1)\<close>

definition stationary_calculate ::
  "EmissionFactor list \<Rightarrow> converter \<Rightarrow> GWPAssessment \<Rightarrow> ActivityRecord \<Rightarrow>
   error + EmissionResult list" where
  "stationary_calculate reg conv g a =
     (case a_custom_factor a of
        Some cf \<Rightarrow> Inr [custom_result a g STATIONARY_COMBUSTION cf CustomFactorUsed]
      | None \<Rightarrow>
          (let fuel_type = fuel_key a;
               factor = (if truthy fuel_type
                         then find_factor reg ''stationary_combustion'' fuel_type None
                                (Some (a_unit a)) (a_factor_source a)
                         else None)
           in case factor of
                None \<Rightarrow> Inl (NoFactorStationary fuel_type (a_unit a))
              | Some f \<Rightarrow>
                  (case (if lower (a_unit a) \<noteq> lower (ef_activity_unit f)
                         then convert_or_raise conv (a_quantity a) (a_unit a) (ef_activity_unit f)
                         else Inr (a_quantity a)) of
                     Inl e \<Rightarrow> Inl e
                   | Inr quantity \<Rightarrow>
                       (case per_gas g quantity f of
                          Inl e \<Rightarrow> Inl e
                        | Inr (breakdown, tot) \<Rightarrow>
                            Inr [factor_result a g STATIONARY_COMBUSTION f breakdown tot]))))"

definition mobile_calculate ::
  "EmissionFactor list \<Rightarrow> converter \<Rightarrow> GWPAssessment \<Rightarrow> ActivityRecord \<Rightarrow>
   error + EmissionResult list" where
  "mobile_calculate reg conv g a =
     (case a_custom_factor a of
        Some cf \<Rightarrow> Inr [custom_result a g MOBILE_COMBUSTION cf CustomFactorUsed]
      | None \<Rightarrow>
          (let fuel_type = fuel_key a;
               vehicle = a_vehicle_type a;
               factor1 = (if truthy vehicle
                          then find_factor reg ''mobile_combustion'' fuel_type None
                                 (Some (a_unit a)) (a_factor_source a)
                          else None);
               factor = (if factor1 = None \<and> truthy fuel_type
                         then find_factor reg ''mobile_combustion'' fuel_type None
                                (Some (a_unit a)) (a_factor_source a)
                         else factor1)
           in case factor of
                None \<Rightarrow> Inl (NoFactorMobile fuel_type vehicle (a_unit a))
              | Some f \<Rightarrow>
                  (case (if lower (a_unit a) \<noteq> lower (ef_activity_unit f)
                         then convert_or_raise conv (a_quantity a) (a_unit a) (ef_activity_unit f)
                         else Inr (a_quantity a)) of
                     Inl e \<Rightarrow> Inl e
                   | Inr quantity \<Rightarrow>
                       (case per_gas g quantity f of
                          Inl e \<Rightarrow> Inl e
                        | Inr (breakdown, tot) \<Rightarrow>
                            Inr [factor_result a g MOBILE_COMBUSTION f breakdown tot]))))"

definition process_calculate ::
  "EmissionFactor list \<Rightarrow> GWPAssessment \<Rightarrow> ActivityRecord \<Rightarrow> error + EmissionResult list" where
  "process_calculate reg g a =
     (case a_custom_factor a of
        Some cf \<Rightarrow> Inr [custom_result a g PROCESS_EMISSIONS cf CustomFactorUsedProcess]
      | None \<Rightarrow>
          (case find_factor reg ''process_emissions'' None None (Some (a_unit a))
                  (a_factor_source a) of
             None \<Rightarrow> Inl NoFactorProcess
           | Some f \<Rightarrow>
               (case per_gas g (a_quantity a) f of
                  Inl e \<Rightarrow> Inl e
                | Inr (breakdown, tot) \<Rightarrow>
                    (let total = (case ef_co2e_factor f of
                                    Some c \<Rightarrow> a_quantity a * c
                                  | None \<Rightarrow> tot)
                     in Inr [factor_result a g PROCESS_EMISSIONS f breakdown total]))))"

text \<open>\<open>quantity_kg\<close> of the fugitive calculator: the conversion to kg, if the unit is not kg.\<close>

definition to_kg :: "converter \<Rightarrow> ActivityRecord \<Rightarrow> error + real" where
  "to_kg conv a =
     (if lower (a_unit a) \<noteq> ''kg''
      then convert_or_raise conv (a_quantity a) (a_unit a) ''kg''
      else Inr (a_quantity a))"

definition fugitive_calculate ::
  "EmissionFactor list \<Rightarrow> converter \<Rightarrow> GWPAssessment \<Rightarrow> ActivityRecord \<Rightarrow>
   error + EmissionResult list" where
  "fugitive_calculate reg conv g a =
     (case a_custom_factor a of
        Some cf \<Rightarrow> Inr [custom_result a g FUGITIVE_EMISSIONS cf CustomFactorUsed]
      | None \<Rightarrow>
          (case a_refrigerant_type a of
             None \<Rightarrow>
               (case find_factor reg ''fugitive_emissions'' None None (Some (a_unit a))
                       (a_factor_source a) of
                  None \<Rightarrow> Inl NoFactorFugitive
                | Some f \<Rightarrow>
                    (case ef_co2e_factor f of
                       None \<Rightarrow> Inl NoFactorFugitive
                     | Some c \<Rightarrow>
                         (case to_kg conv a of
                            Inl e \<Rightarrow> Inl e
                          | Inr quantity_kg \<Rightarrow>
                              Inr [(result_of a g SCOPE_1 (quantity_kg * c))
                                     \<lparr> r_scope1_category := Some FUGITIVE_EMISSIONS,
                                       r_factor_id := Some (ef_id f),
                                       r_factor_source := Some (source_value (ef_source f)),
                                       r_activity_quantity := Some (a_quantity a),
                                       r_activity_unit := Some (a_unit a) \<rparr>])))
           | Some refrigerant \<Rightarrow>
               (case to_kg conv a of
                  Inl e \<Rightarrow> Inl e
                | Inr quantity_kg \<Rightarrow>
                    (case (case get_gwp (GasStr (lower refrigerant)) g of
                             Inr v \<Rightarrow> Inr v
                           | Inl _ \<Rightarrow>
                               (case first_of (search reg (no_args \<lparr> q_query := refrigerant,
                                        q_category := Some ''fugitive_emissions'',
                                        q_limit := 1 \<rparr>)) of
                                  None \<Rightarrow> Inl (UnknownRefrigerant refrigerant)
                                | Some f \<Rightarrow>
                                    (case ef_co2e_factor f of
                                       None \<Rightarrow> Inl (UnknownRefrigerant refrigerant)
                                     | Some c \<Rightarrow> Inr c))) of
                       Inl e \<Rightarrow> Inl e
                     | Inr gwp \<Rightarrow>
                         (let total = quantity_kg * gwp;
                              breakdown = [\<lparr> gb_gas = HFC, gb_mass_kg = quantity_kg,
                                             gb_co2e_kg = total, gb_gwp_used = gwp,
                                             gb_gwp_assessment = g \<rparr>]
                          in Inr [(result_of a g SCOPE_1 total)
                                    \<lparr> r_scope1_category := Some FUGITIVE_EMISSIONS,
                                      r_gas_breakdown := breakdown,
                                      r_activity_quantity := Some (a_quantity a),
                                      r_activity_unit := Some (a_unit a),
                                      r_notes := [RefrigerantNote refrigerant gwp] \<rparr>])))))"

section \<open>Scope 2 calculator (engine/scope2/electricity.py)\<close>

definition find_location_factor :: "EmissionFactor list \<Rightarrow> ActivityRecord \<Rightarrow> EmissionFactor option" where
  "find_location_factor reg a =
     (let f1 = (if truthy (a_grid_subregion a)
                then find_factor reg ''electricity'' None (a_grid_subregion a) (Some ''kWh'')
                       (Some EGRID)
                else None)
      in case f1 of
           Some f \<Rightarrow> Some f
         | None \<Rightarrow>
             (let f2 = (if truthy (a_country a)
                        then find_factor reg ''electricity'' None (a_country a) (Some ''kWh'')
                               (Some EMBER)
                        else None)
              in case f2 of
                   Some f \<Rightarrow> Some f
                 | None \<Rightarrow> find_factor reg ''electricity'' None (Some ''US'') (Some ''kWh'') None))"

definition find_market_factor :: "EmissionFactor list \<Rightarrow> ActivityRecord \<Rightarrow> EmissionFactor option" where
  "find_market_factor reg a =
     (let f1 = (case a_factor_source a of
                  Some src \<Rightarrow>
                    find_factor reg ''electricity'' None
                      (or_opt (a_grid_subregion a) (a_country a)) (Some ''kWh'') (Some src)
                | None \<Rightarrow> None)
      in case f1 of
           Some f \<Rightarrow> Some f
         | None \<Rightarrow> find_location_factor reg a)"

text \<open>One \<open>results.append(...)\<close> of the electricity calculator, for a found factor.\<close>

definition electricity_result ::
  "ActivityRecord \<Rightarrow> GWPAssessment \<Rightarrow> real \<Rightarrow> Scope2Method \<Rightarrow> result_note list \<Rightarrow>
   EmissionFactor \<Rightarrow> error + EmissionResult" where
  "electricity_result a g quantity_kwh method nts factor =
     (case per_gas g quantity_kwh factor of
        Inl e \<Rightarrow> Inl e
      | Inr (breakdown, tot) \<Rightarrow>
          Inr ((result_of a g SCOPE_2 tot)
                 \<lparr> r_scope2_method := Some method,
                   r_gas_breakdown := breakdown,
                   r_factor_id := Some (ef_id factor),
                   r_factor_source := Some (source_value (ef_source factor)),
                   r_activity_quantity := Some (a_quantity a),
                   r_activity_unit := Some (a_unit a),
                   r_notes := nts \<rparr>))"

definition electricity_calculate ::
  "EmissionFactor list \<Rightarrow> converter \<Rightarrow> GWPAssessment \<Rightarrow> ActivityRecord \<Rightarrow>
   error + EmissionResult list" where
  "electricity_calculate reg conv g a =
     (case (if lower (a_unit a) \<notin> set [''kwh'', ''kilowatt_hour'']
            then convert_or_raise conv (a_quantity a) (a_unit a) ''kWh''
            else Inr (a_quantity a)) of
        Inl e \<Rightarrow> Inl e
      | Inr quantity_kwh \<Rightarrow>
          (case a_custom_factor a of
             Some cf \<Rightarrow>
               (let method = (case a_scope2_method a of Some m \<Rightarrow> m | None \<Rightarrow> LOCATION_BASED)
                in Inr [(result_of a g SCOPE_2 (quantity_kwh * cf))
                          \<lparr> r_scope2_method := Some method,
                            r_activity_quantity := Some (a_quantity a),
                            r_activity_unit := Some (a_unit a),
                            r_notes := [CustomFactorUsed] \<rparr>])
           | None \<Rightarrow>
               (case (case find_location_factor reg a of
                        None \<Rightarrow> Inr []
                      | Some lf \<Rightarrow>
                          (case electricity_result a g quantity_kwh LOCATION_BASED [] lf of
                             Inl e \<Rightarrow> Inl e
                           | Inr r \<Rightarrow> Inr [r])) of
                  Inl e \<Rightarrow> Inl e
                | Inr results1 \<Rightarrow>
                    (case (case find_market_factor reg a of
                             None \<Rightarrow> Inr results1
                           | Some mf \<Rightarrow>
                               (case electricity_result a g quantity_kwh MARKET_BASED
                                       [MarketProxyNote] mf of
                                  Inl e \<Rightarrow> Inl e
                                | Inr r \<Rightarrow> Inr (results1 @ [r]))) of
                       Inl e \<Rightarrow> Inl e
                     | Inr results \<Rightarrow>
                         (if results = []
                          then Inl (NoFactorElectricity
                                 (or_opt (a_grid_subregion a) (or_opt (a_region a) (a_country a))))
                          else Inr results)))))"

section \<open>Scope 3 calculator (engine/scope3/base.py)\<close>

fun CATEGORY_MAP :: "Scope3Category \<Rightarrow> string" where
  "CATEGORY_MAP PURCHASED_GOODS_SERVICES = ''purchased_goods''"
| "CATEGORY_MAP CAPITAL_GOODS = ''capital_goods''"
| "CATEGORY_MAP FUEL_ENERGY_ACTIVITIES = ''fuel_energy''"
| "CATEGORY_MAP UPSTREAM_TRANSPORT = ''transport''"
| "CATEGORY_MAP WASTE = ''waste''"
| "CATEGORY_MAP BUSINESS_TRAVEL = ''business_travel''"
| "CATEGORY_MAP EMPLOYEE_COMMUTING = ''commuting''"
| "CATEGORY_MAP UPSTREAM_LEASED_ASSETS = ''leased_assets''"
| "CATEGORY_MAP DOWNSTREAM_TRANSPORT = ''transport''"
| "CATEGORY_MAP PROCESSING_SOLD_PRODUCTS = ''processing''"
| "CATEGORY_MAP USE_OF_SOLD_PRODUCTS = ''product_use''"
| "CATEGORY_MAP END_OF_LIFE_SOLD_PRODUCTS = ''end_of_life''"
| "CATEGORY_MAP DOWNSTREAM_LEASED_ASSETS = ''leased_assets''"
| "CATEGORY_MAP FRANCHISES = ''franchises''"
| "CATEGORY_MAP INVESTMENTS = ''investments''"

text \<open>\<open>self._CATEGORY_MAP.get(category, default)\<close>; every member is a key of the table.\<close>

definition category_name :: "Scope3Category option \<Rightarrow> string \<Rightarrow> string" where
  "category_name c d = (case c of None \<Rightarrow> d | Some x \<Rightarrow> CATEGORY_MAP x)"

text \<open>\<open>factor.co2e_factor if factor.co2e_factor is not None else factor.co2_factor\<close>\<close>

definition co2e_or_co2 :: "EmissionFactor \<Rightarrow> real" where
  "co2e_or_co2 f = (case ef_co2e_factor f of Some c \<Rightarrow> c | None \<Rightarrow> ef_co2_factor f)"

text \<open>The result of a Scope 3 path that uses a registry factor without a gas breakdown.\<close>

definition scope3_result ::
  "ActivityRecord \<Rightarrow> GWPAssessment \<Rightarrow> Scope3Category option \<Rightarrow> EmissionFactor \<Rightarrow> real \<Rightarrow>
   real \<Rightarrow> string \<Rightarrow> result_note \<Rightarrow> EmissionResult" where
  "scope3_result a g cat factor tot quantity unit nt =
     (result_of a g SCOPE_3 tot)
       \<lparr> r_scope3_category := cat,
         r_factor_id := Some (ef_id factor),
         r_factor_source := Some (source_value (ef_source factor)),
         r_activity_quantity := Some quantity,
         r_activity_unit := Some unit,
         r_notes := [nt] \<rparr>"

definition calculate_custom :: "GWPAssessment \<Rightarrow> ActivityRecord \<Rightarrow> real \<Rightarrow> EmissionResult list" where
  "calculate_custom g a cf =
     [(result_of a g SCOPE_3 (a_quantity a * cf))
        \<lparr> r_scope3_category := a_scope3_category a,
          r_activity_quantity := Some (a_quantity a),
          r_activity_unit := Some (a_unit a),
          r_notes := [CustomFactorUsed] \<rparr>]"

definition calculate_spend_based ::
  "EmissionFactor list \<Rightarrow> GWPAssessment \<Rightarrow> ActivityRecord \<Rightarrow> error + EmissionResult list" where
  "calculate_spend_based reg g a =
     (let factor1 =
            (if truthy (a_naics_code a) then
               (case find_factor reg ''spend_based'' (a_naics_code a) None None (Some USEEIO) of
                  Some f \<Rightarrow> Some f
                | None \<Rightarrow>
                    first_of (search reg (no_args \<lparr> q_query := or_str (a_naics_code a) [],
                                q_source := Some USEEIO, q_limit := 1 \<rparr>)))
             else None);
          factor =
            (case factor1 of
               Some f \<Rightarrow> Some f
             | None \<Rightarrow>
                 first_of (search reg (no_args \<lparr> q_query := or_str (a_naics_code a) [],
                             q_source := Some EXIOBASE, q_limit := 1 \<rparr>)))
      in case factor of
           None \<Rightarrow> Inl (NoFactorSpend (a_naics_code a))
         | Some f \<Rightarrow>
             (let spend = (case a_spend_amount a of
                             Some s \<Rightarrow> (if s \<noteq> 0 then s else a_quantity a)
                           | None \<Rightarrow> a_quantity a);
                  co2e_factor = co2e_or_co2 f
              in Inr [scope3_result a g (a_scope3_category a) f (spend * co2e_factor) spend
                        ''USD'' (SpendBasedNote co2e_factor)]))"

text \<open>
  \<open>calculate\<close> calls the distance-based path only when \<open>activity.distance\<close> is set; the
  value is passed as the last argument.
\<close>

definition calculate_distance_based ::
  "EmissionFactor list \<Rightarrow> converter \<Rightarrow> GWPAssessment \<Rightarrow> ActivityRecord \<Rightarrow> real \<Rightarrow>
   error + EmissionResult list" where
  "calculate_distance_based reg conv g a dst =
     (let mode = or_str (or_opt (a_transport_mode a) (a_vehicle_type a)) ''average'';
          cat_name = category_name (a_scope3_category a) ''transport'';
          factor =
            (case find_factor reg cat_name (Some mode) None
                    (Some (or_str (a_distance_unit a) ''km'')) None of
               Some f \<Rightarrow> Some f
             | None \<Rightarrow>
                 first_of (search reg (no_args \<lparr> q_query := cat_name @ '' '' @ mode,
                             q_limit := 1 \<rparr>)))
      in case factor of
           None \<Rightarrow> Inl (NoFactorDistance cat_name mode)
         | Some f \<Rightarrow>
             (let distance =
                    (if truthy (a_distance_unit a) \<and>
                        lower (or_str (a_distance_unit a) []) \<noteq> lower (ef_activity_unit f)
                     then (case conv dst (or_str (a_distance_unit a) []) (ef_activity_unit f) of
                             Some d \<Rightarrow> d
                           | None \<Rightarrow> dst)
                     else dst);
                  weight = (case a_weight a of Some w \<Rightarrow> w | None \<Rightarrow> 0);
                  quantity =
                    (if weight \<noteq> 0 \<and> contains ''tonne_km'' (lower (ef_activity_unit f))
                     then
                       (let weight_tonnes =
                              (if truthy (a_weight_unit a) \<and>
                                  lower (or_str (a_weight_unit a) []) \<noteq> ''tonne''
                               then (case conv weight (or_str (a_weight_unit a) [])
                                            ''metric_ton'' of
                                       Some w \<Rightarrow> w
                                     | None \<Rightarrow> weight)
                               else weight)
                        in distance * weight_tonnes)
                     else distance);
                  co2e_factor = co2e_or_co2 f
              in Inr [scope3_result a g (a_scope3_category a) f (quantity * co2e_factor)
                        quantity (ef_activity_unit f) (DistanceBasedNote mode)]))"

definition calculate_waste ::
  "EmissionFactor list \<Rightarrow> GWPAssessment \<Rightarrow> ActivityRecord \<Rightarrow> error + EmissionResult list" where
  "calculate_waste reg g a =
     (let waste_type = or_str (a_waste_type a) ''mixed'';
          disposal = or_str (a_disposal_method a) ''landfill'';
          factor =
            (case find_factor reg ''waste'' (Some (waste_type @ ''_'' @ disposal)) None None None of
               Some f \<Rightarrow> Some f
             | None \<Rightarrow>
                 first_of (search reg (no_args \<lparr> q_query := ''waste '' @ waste_type @ '' ''
                                                    @ disposal,
                             q_limit := 1 \<rparr>)))
      in case factor of
           None \<Rightarrow> Inl (NoFactorWaste waste_type disposal)
         | Some f \<Rightarrow>
             Inr [scope3_result a g (Some WASTE) f (a_quantity a * co2e_or_co2 f) (a_quantity a)
                    (a_unit a) (WasteNote waste_type disposal)])"

text \<open>
  The generic path is reached only with \<open>scope3_category\<close> set; the category is the last
  argument.
\<close>

definition calculate_activity_based ::
  "EmissionFactor list \<Rightarrow> GWPAssessment \<Rightarrow> ActivityRecord \<Rightarrow> Scope3Category \<Rightarrow>
   error + EmissionResult list" where
  "calculate_activity_based reg g a cat =
     (let cat_name = category_name (Some cat) [];
          factor =
            (case find_factor reg cat_name None None (Some (a_unit a)) (a_factor_source a) of
               Some f \<Rightarrow> Some f
             | None \<Rightarrow>
                 first_of (search reg (no_args \<lparr> q_query := cat_name,
                             q_activity_unit := Some (a_unit a), q_limit := 1 \<rparr>)))
      in case factor of
           None \<Rightarrow> Inl (NoFactorActivity cat (a_unit a))
         | Some f \<Rightarrow>
             (case per_gas g (a_quantity a) f of
                Inl e \<Rightarrow> Inl e
              | Inr (breakdown, tot) \<Rightarrow>
                  (let total = (case ef_co2e_factor f of
                                  Some c \<Rightarrow> a_quantity a * c
                                | None \<Rightarrow> tot)
                   in Inr [(result_of a g SCOPE_3 total)
                             \<lparr> r_scope3_category := Some cat,
                               r_gas_breakdown := breakdown,
                               r_factor_id := Some (ef_id f),
                               r_factor_source := Some (source_value (ef_source f)),
                               r_activity_quantity := Some (a_quantity a),
                               r_activity_unit := Some (a_unit a) \<rparr>])))"

definition scope3_calculate ::
  "EmissionFactor list \<Rightarrow> converter \<Rightarrow> GWPAssessment \<Rightarrow> ActivityRecord \<Rightarrow>
   error + EmissionResult list" where
  "scope3_calculate reg conv g a =
     (case a_custom_factor a of
        Some cf \<Rightarrow> Inr (calculate_custom g a cf)
      | None \<Rightarrow>
          (case a_scope3_category a of
             None \<Rightarrow> Inl Scope3CategoryRequired
           | Some category \<Rightarrow>
               (if a_spend_amount a \<noteq> None then calculate_spend_based reg g a
                else if a_distance a \<noteq> None \<and>
                        category \<in> set [UPSTREAM_TRANSPORT, DOWNSTREAM_TRANSPORT,
                                         BUSINESS_TRAVEL, EMPLOYEE_COMMUTING]
                then calculate_distance_based reg conv g a
                       (case a_distance a of Some d \<Rightarrow> d | None \<Rightarrow> 0)
                else if category = WASTE then calculate_waste reg g a
                else calculate_activity_based reg g a category)))"

section \<open>Orchestrator (engine/calculator.py)\<close>

definition route_scope1 ::
  "EmissionFactor list \<Rightarrow> converter \<Rightarrow> GWPAssessment \<Rightarrow> ActivityRecord \<Rightarrow>
   error + EmissionResult list" where
  "route_scope1 reg conv g a =
     (case a_scope1_category a of
        Some STATIONARY_COMBUSTION \<Rightarrow> stationary_calculate reg conv g a
      | Some MOBILE_COMBUSTION \<Rightarrow> mobile_calculate reg conv g a
      | Some FUGITIVE_EMISSIONS \<Rightarrow> fugitive_calculate reg conv g a
      | Some PROCESS_EMISSIONS \<Rightarrow> process_calculate reg g a
      | None \<Rightarrow>
          (if truthy (a_refrigerant_type a) then fugitive_calculate reg conv g a
           else if a_fuel_type a \<noteq> None \<or> truthy (a_custom_fuel a)
           then stationary_calculate reg conv g a
           else Inl CannotDetermineScope1))"

definition calculate_single ::
  "EmissionFactor list \<Rightarrow> converter \<Rightarrow> GWPAssessment \<Rightarrow> ActivityRecord \<Rightarrow>
   error + EmissionResult list" where
  "calculate_single reg conv g a =
     (case a_scope a of
        SCOPE_1 \<Rightarrow> route_scope1 reg conv g a
      | SCOPE_2 \<Rightarrow> electricity_calculate reg conv g a
      | SCOPE_3 \<Rightarrow> scope3_calculate reg conv g a)"

fun calculate_activities ::
  "EmissionFactor list \<Rightarrow> converter \<Rightarrow> GWPAssessment \<Rightarrow> InventoryResult \<Rightarrow>
   ActivityRecord list \<Rightarrow> error + InventoryResult" where
  "calculate_activities reg conv g inventory [] = Inr inventory"
| "calculate_activities reg conv g inventory (a # rest) =
     (case calculate_single reg conv g a of
        Inl e \<Rightarrow> Inl e
      | Inr results \<Rightarrow> calculate_activities reg conv g (add_results inventory results) rest)"

definition calculate_inventory ::
  "EmissionFactor list \<Rightarrow> converter \<Rightarrow> GWPAssessment \<Rightarrow> ActivityRecord list \<Rightarrow> string \<Rightarrow>
   int option \<Rightarrow> error + InventoryResult" where
  "calculate_inventory reg conv g activities name year =
     calculate_activities reg conv g (new_inventory name year) activities"

section \<open>Constructors with the declared defaults\<close>

text \<open>
  \<open>ActivityRecord(scope=sc, quantity=q, unit=u)\<close> and
  \<open>EmissionFactor(id=i, name=n, source=s, activity_unit=u)\<close>: the required fields, every
  other field at the default its class declares.
\<close>

definition activity :: "Scope \<Rightarrow> real \<Rightarrow> string \<Rightarrow> ActivityRecord" where
  "activity sc q u =
     \<lparr> a_id = None, a_name = None, a_scope = sc, a_scope1_category = None,
       a_scope2_method = None, a_scope3_category = None, a_quantity = q, a_unit = u,
       a_fuel_type = None, a_custom_fuel = None, a_country = None, a_region = None,
       a_grid_subregion = None, a_custom_factor = None, a_factor_source = None,
       a_spend_amount = None, a_naics_code = None, a_distance = None,
       a_distance_unit = None, a_weight = None, a_weight_unit = None,
       a_vehicle_type = None, a_transport_mode = None, a_waste_type = None,
       a_disposal_method = None, a_refrigerant_type = None \<rparr>"

definition factor :: "string \<Rightarrow> string \<Rightarrow> FactorSource \<Rightarrow> string \<Rightarrow> EmissionFactor" where
  "factor i n s u =
     \<lparr> ef_id = i, ef_name = n, ef_source = s, ef_scope = None, ef_co2_factor = 0,
       ef_ch4_factor = 0, ef_n2o_factor = 0, ef_co2e_factor = None, ef_activity_unit = u,
       ef_category = [], ef_subcategory = [], ef_fuel_type = None, ef_region = None,
       ef_description = [], ef_tags = [] \<rparr>"

text \<open>\<open>EmissionResult(scope=sc, scope2_method=m, total_co2e_kg=tot)\<close>, likewise.\<close>

definition sample_result :: "Scope \<Rightarrow> Scope2Method option \<Rightarrow> real \<Rightarrow> EmissionResult" where
  "sample_result sc m tot =
     \<lparr> r_activity_id = None, r_activity_name = None, r_scope = sc,
       r_scope1_category = None, r_scope2_method = m, r_scope3_category = None,
       r_total_co2e_kg = tot, r_gas_breakdown = [], r_factor_id = None,
       r_factor_source = None, r_activity_quantity = None, r_activity_unit = None,
       r_gwp_assessment = AR5, r_notes = [] \<rparr>"

section \<open>Sample registries and activities\<close>

definition exio_registry :: "EmissionFactor list" where
  "exio_registry =
     [(factor ''useeio_541'' ''Legal services'' USEEIO ''USD'')
        \<lparr> ef_co2e_factor := Some (1 / 10), ef_category := ''spend_based'' \<rparr>,
      (factor ''exio_a'' ''Agriculture'' EXIOBASE ''USD'')
        \<lparr> ef_co2e_factor := Some (1 / 2), ef_category := ''spend_based'' \<rparr>,
      (factor ''exio_b'' ''Mining'' EXIOBASE ''USD'')
        \<lparr> ef_co2_factor := 3, ef_category := ''spend_based'' \<rparr>]"

definition spend_activity :: ActivityRecord where
  "spend_activity =
     (activity SCOPE_3 1 ''USD'')
       \<lparr> a_scope3_category := Some PURCHASED_GOODS_SERVICES, a_spend_amount := Some 200 \<rparr>"

definition gas_registry :: "EmissionFactor list" where
  "gas_registry =
     [(factor ''f1'' ''Coal'' EPA_HUB ''kg'') \<lparr> ef_fuel_type := Some ''coal'' \<rparr>,
      (factor ''f2'' ''Gas boiler'' EPA_HUB ''kg'') \<lparr> ef_description := ''burns gas'' \<rparr>,
      (factor ''f3'' ''Natural Gas'' EPA_HUB ''kg'') \<lparr> ef_fuel_type := Some ''gas'' \<rparr>,
      (factor ''f4'' ''Gas heater'' EPA_HUB ''kg'')]"


text \<open>The electricity factor of the DEFRA data set, the only factor of a registry.\<close>

definition uk_registry :: "EmissionFactor list" where
  "uk_registry =
     [(factor ''defra_elec_uk_kwh'' ''UK Grid Electricity'' DEFRA ''kWh'')
        \<lparr> ef_co2_factor := 207 / 1000, ef_ch4_factor := 1 / 100000,
          ef_n2o_factor := 1 / 1000000, ef_co2e_factor := Some (212 / 1000),
          ef_category := ''electricity'', ef_subcategory := ''grid_electricity'',
          ef_region := Some ''UK'', ef_tags := [''electricity'', ''grid''] \<rparr>]"

text \<open>A factor whose fuel type is the empty string.\<close>

definition blank_fuel_registry :: "EmissionFactor list" where
  "blank_fuel_registry = [(factor ''x1'' ''Unnamed fuel'' CUSTOM ''kg'') \<lparr> ef_fuel_type := Some [] \<rparr>]"

text \<open>
  A UK electricity activity that asks for DEFRA factors, and one measured in MWh with a
  custom factor.
\<close>

definition uk_activity :: ActivityRecord where
  "uk_activity =
     (activity SCOPE_2 1000 ''kWh'') \<lparr> a_country := Some ''UK'', a_factor_source := Some DEFRA \<rparr>"

definition mwh_activity :: ActivityRecord where
  "mwh_activity = (activity SCOPE_2 2 ''MWh'') \<lparr> a_custom_factor := Some (1 / 2) \<rparr>"

text \<open>A converter that knows MWh to kWh only, and one that knows nothing.\<close>

definition mwh_conv :: converter where
  "mwh_conv v from_unit to_unit =
     (if from_unit = ''MWh'' \<and> to_unit = ''kWh'' then Some (v * 1000) else None)"

definition no_conv :: converter where
  "no_conv v from_unit to_unit = None"



section \<open>Auxiliary notions for the properties\<close>

text \<open>A result that \<open>add_result\<close> files under the market-based bucket.\<close>

definition is_market :: "EmissionResult \<Rightarrow> bool" where
  "is_market r = (r_scope r = SCOPE_2 \<and> r_scope2_method r = Some MARKET_BASED)"

definition sum_totals :: "EmissionResult list \<Rightarrow> real" where
  "sum_totals rs = sum_list (map r_total_co2e_kg rs)"

text \<open>The totals of a calculator's outcome, the error kept.\<close>

definition totals_of :: "error + EmissionResult list \<Rightarrow> error + real list" where
  "totals_of res = map_sum id (map r_total_co2e_kg) res"

text \<open>
  The criteria of \<open>search\<close> as one predicate on a factor: every supplied criterion must
  hold.  The category is compared as it is written; fuel type and region need a factor
  field that is set and not empty.
\<close>

definition matches :: "search_args \<Rightarrow> EmissionFactor \<Rightarrow> bool" where
  "matches args f =
     ((case q_source args of None \<Rightarrow> True | Some s \<Rightarrow> ef_source f = s) \<and>
      (case q_category args of None \<Rightarrow> True | Some c \<Rightarrow> ef_category f = c) \<and>
      (case q_fuel_type args of
         None \<Rightarrow> True
       | Some ft \<Rightarrow> truthy (ef_fuel_type f) \<and> lower (or_str (ef_fuel_type f) []) = lower ft) \<and>
      (case q_region args of
         None \<Rightarrow> True
       | Some r \<Rightarrow> truthy (ef_region f) \<and> lower (or_str (ef_region f) []) = lower r) \<and>
      (case q_scope args of None \<Rightarrow> True | Some s \<Rightarrow> ef_scope f = Some s) \<and>
      (case q_activity_unit args of
         None \<Rightarrow> True
       | Some u \<Rightarrow> lower (ef_activity_unit f) = lower u))"

text \<open>
  Two argument records that differ at most in the letter case of fuel type, region and
  activity unit.
\<close>

definition same_up_to_case :: "search_args \<Rightarrow> search_args \<Rightarrow> bool" where
  "same_up_to_case x y =
     (q_query y = q_query x \<and> q_source y = q_source x \<and> q_category y = q_category x \<and>
      map_option lower (q_fuel_type y) = map_option lower (q_fuel_type x) \<and>
      map_option lower (q_region y) = map_option lower (q_region x) \<and>
      q_scope y = q_scope x \<and>
      map_option lower (q_activity_unit y) = map_option lower (q_activity_unit x) \<and>
      q_tags y = q_tags x \<and> q_limit y = q_limit x)"

text \<open>
  A calculator's outcome that is one result with the given total and no gas breakdown.
\<close>

definition single_plain :: "error + EmissionResult list \<Rightarrow> real \<Rightarrow> bool" where
  "single_plain res tot =
     (case res of
        Inr [r] \<Rightarrow> r_total_co2e_kg r = tot \<and> r_gas_breakdown r = []
      | _ \<Rightarrow> False)"

text \<open>The quantity in kWh that the electricity calculator works with.\<close>

definition quantity_kwh :: "converter \<Rightarrow> ActivityRecord \<Rightarrow> real option" where
  "quantity_kwh conv a =
     (if lower (a_unit a) \<in> set [''kwh'', ''kilowatt_hour''] then Some (a_quantity a)
      else conv (a_quantity a) (a_unit a) ''kWh'')"


section \<open>Properties of the registry filters\<close>

lemma by_fuel_type_eq:
  "by_fuel_type v fs =
     filter (\<lambda>f. case v of None \<Rightarrow> True
                 | Some ft \<Rightarrow> truthy (ef_fuel_type f) \<and>
                     lower (or_str (ef_fuel_type f) []) = lower ft) fs"
  by (cases v) (simp_all add: by_fuel_type_def)

lemma by_region_eq:
  "by_region v fs =
     filter (\<lambda>f. case v of None \<Rightarrow> True
                 | Some r \<Rightarrow> truthy (ef_region f) \<and>
                     lower (or_str (ef_region f) []) = lower r) fs"
  by (cases v) (simp_all add: by_region_def)

lemma by_activity_unit_eq:
  "by_activity_unit v fs =
     filter (\<lambda>f. case v of None \<Rightarrow> True | Some u \<Rightarrow> lower (ef_activity_unit f) = lower u) fs"
  by (cases v) (simp_all add: by_activity_unit_def)

lemma by_source_eq:
  "by_source v fs = filter (\<lambda>f. case v of None \<Rightarrow> True | Some s \<Rightarrow> ef_source f = s) fs"
  by (cases v) (simp_all add: by_source_def)

lemma by_category_eq:
  "by_category v fs = filter (\<lambda>f. case v of None \<Rightarrow> True | Some c \<Rightarrow> ef_category f = c) fs"
  by (cases v) (simp_all add: by_category_def)

lemma by_scope_eq:
  "by_scope v fs = filter (\<lambda>f. case v of None \<Rightarrow> True | Some s \<Rightarrow> ef_scope f = Some s) fs"
  by (cases v) (simp_all add: by_scope_def)

lemma apply_filters_eq:
  "q_tags args = None \<Longrightarrow> apply_filters fs args = filter (matches args) fs"
proof -
  assume "q_tags args = None"
  then have "apply_filters fs args =
      filter (\<lambda>f. case q_activity_unit args of None \<Rightarrow> True
                  | Some u \<Rightarrow> lower (ef_activity_unit f) = lower u)
        (by_scope (q_scope args) (by_region (q_region args) (by_fuel_type (q_fuel_type args)
          (by_category (q_category args) (by_source (q_source args) fs)))))"
    by (simp add: apply_filters_def by_tags_def by_activity_unit_eq)
  also have "\<dots> = filter (matches args) fs"
    unfolding by_source_eq by_category_eq by_fuel_type_eq by_region_eq by_scope_eq filter_filter
    by (rule filter_cong [OF refl]) (auto simp: matches_def)
  finally show ?thesis .
qed

lemma matches_same_up_to_case:
  "same_up_to_case args args' \<Longrightarrow> matches args' f = matches args f"
  by (cases "q_fuel_type args"; cases "q_fuel_type args'"; cases "q_region args";
      cases "q_region args'"; cases "q_activity_unit args"; cases "q_activity_unit args'")
     (simp_all add: same_up_to_case_def matches_def)

section \<open>Properties of the ranking\<close>










section \<open>Properties of the shared helpers\<close>














lemma search_source_only:
  "search reg (no_args \<lparr> q_query := [], q_source := Some src, q_limit := 1 \<rparr>) =
     take 1 (filter (\<lambda>f. ef_source f = src) reg)"
  by (simp add: search_def apply_filters_def no_args_def by_source_def by_category_def
        by_fuel_type_def by_region_def by_scope_def by_activity_unit_def by_tags_def
        py_take_def)

lemma or_str_falsy: "\<not> truthy v \<Longrightarrow> or_str v d = d"
  by (cases v) (simp_all add: or_str_def)

lemma single_plain_totals: "single_plain res t \<Longrightarrow> totals_of res = Inr [t]"
  by (auto simp: single_plain_def totals_of_def split: sum.splits list.splits)

section \<open>Properties of the inventory\<close>

lemma add_results_Cons: "add_results iv (r # rs) = add_results (add_result iv r) rs"
  by (simp add: add_results_def)

lemma add_results_scope1:
  "sr_results (inv_scope1 (add_results iv rs)) =
     sr_results (inv_scope1 iv) @ filter (\<lambda>r. r_scope r = SCOPE_1) rs \<and>
   sr_total_co2e_kg (inv_scope1 (add_results iv rs)) =
     sr_total_co2e_kg (inv_scope1 iv) + sum_totals (filter (\<lambda>r. r_scope r = SCOPE_1) rs)"
proof (induction rs arbitrary: iv)
  case Nil
  show ?case by (simp add: add_results_def sum_totals_def)
next
  case (Cons r rs)
  show ?case
    using Cons.IH [of "add_result iv r"]
    by (cases "r_scope r") (simp_all add: add_results_Cons scope_add_result_def sum_totals_def)
qed

lemma add_results_scope3:
  "sr_results (inv_scope3 (add_results iv rs)) =
     sr_results (inv_scope3 iv) @ filter (\<lambda>r. r_scope r = SCOPE_3) rs \<and>
   sr_total_co2e_kg (inv_scope3 (add_results iv rs)) =
     sr_total_co2e_kg (inv_scope3 iv) + sum_totals (filter (\<lambda>r. r_scope r = SCOPE_3) rs)"
proof (induction rs arbitrary: iv)
  case Nil
  show ?case by (simp add: add_results_def sum_totals_def)
next
  case (Cons r rs)
  show ?case
    using Cons.IH [of "add_result iv r"]
    by (cases "r_scope r") (simp_all add: add_results_Cons scope_add_result_def sum_totals_def)
qed

lemma add_results_market:
  "sr_results (inv_scope2_market (add_results iv rs)) =
     sr_results (inv_scope2_market iv) @ filter is_market rs \<and>
   sr_total_co2e_kg (inv_scope2_market (add_results iv rs)) =
     sr_total_co2e_kg (inv_scope2_market iv) + sum_totals (filter is_market rs)"
proof (induction rs arbitrary: iv)
  case Nil
  show ?case by (simp add: add_results_def sum_totals_def)
next
  case (Cons r rs)
  show ?case
    using Cons.IH [of "add_result iv r"]
    by (cases "r_scope r")
       (simp_all add: add_results_Cons scope_add_result_def sum_totals_def is_market_def)
qed

lemma add_results_location:
  "sr_results (inv_scope2_location (add_results iv rs)) =
     sr_results (inv_scope2_location iv)
       @ filter (\<lambda>r. r_scope r = SCOPE_2 \<and> \<not> is_market r) rs \<and>
   sr_total_co2e_kg (inv_scope2_location (add_results iv rs)) =
     sr_total_co2e_kg (inv_scope2_location iv)
       + sum_totals (filter (\<lambda>r. r_scope r = SCOPE_2 \<and> \<not> is_market r) rs)"
proof (induction rs arbitrary: iv)
  case Nil
  show ?case by (simp add: add_results_def sum_totals_def)
next
  case (Cons r rs)
  show ?case
    using Cons.IH [of "add_result iv r"]
    by (cases "r_scope r")
       (simp_all add: add_results_Cons scope_add_result_def sum_totals_def is_market_def)
qed

lemma new_inventory_buckets:
  "sr_results (inv_scope1 (new_inventory n y)) = [] \<and>
   sr_total_co2e_kg (inv_scope1 (new_inventory n y)) = 0 \<and>
   sr_results (inv_scope2_location (new_inventory n y)) = [] \<and>
   sr_total_co2e_kg (inv_scope2_location (new_inventory n y)) = 0 \<and>
   sr_results (inv_scope2_market (new_inventory n y)) = [] \<and>
   sr_total_co2e_kg (inv_scope2_market (new_inventory n y)) = 0 \<and>
   sr_results (inv_scope3 (new_inventory n y)) = [] \<and>
   sr_total_co2e_kg (inv_scope3 (new_inventory n y)) = 0"
  by (simp add: new_inventory_def new_scope_result_def)

lemma sum_totals_split:
  "sum_totals (filter (\<lambda>r. \<not> is_market r) rs) =
     sum_totals (filter (\<lambda>r. r_scope r = SCOPE_1) rs)
       + sum_totals (filter (\<lambda>r. r_scope r = SCOPE_2 \<and> \<not> is_market r) rs)
       + sum_totals (filter (\<lambda>r. r_scope r = SCOPE_3) rs)"
proof (induction rs)
  case Nil
  show ?case by (simp add: sum_totals_def)
next
  case (Cons r rs)
  then show ?case
    by (cases "r_scope r") (auto simp: sum_totals_def is_market_def)
qed

section \<open>Outcomes of the calculators\<close>



















section \<open>Properties of the string operations\<close>












section \<open>Failed factor resolution\<close>














section \<open>The custom factor override\<close>

text \<open>
  C1, as the code has it.  With \<open>custom_factor = cf\<close> the stationary, mobile, fugitive,
  process and Scope 3 calculators return one result whose total is \<open>quantity * cf\<close>, with
  no gas breakdown, whatever the unit and the other fields.  The electricity calculator
  first brings the quantity to kWh: with the unit kWh or kilowatt_hour (in any letter
  case) the quantity is taken as it is, otherwise it is converted; a failed conversion is
  the cannot-convert error, and a converted quantity \<open>k\<close> gives one result with total
  \<open>k * cf\<close> and no gas breakdown.  No calculator consults the registry: the outcome is the
  same with the empty registry.
\<close>

theorem custom_factor_override:
  assumes "a_custom_factor a = Some cf"
  shows "single_plain (stationary_calculate reg conv g a) (a_quantity a * cf) \<and>
         single_plain (mobile_calculate reg conv g a) (a_quantity a * cf) \<and>
         single_plain (fugitive_calculate reg conv g a) (a_quantity a * cf) \<and>
         single_plain (process_calculate reg g a) (a_quantity a * cf) \<and>
         single_plain (scope3_calculate reg conv g a) (a_quantity a * cf) \<and>
         (case quantity_kwh conv a of
            None \<Rightarrow> electricity_calculate reg conv g a = Inl (CannotConvert (a_unit a) ''kWh'')
          | Some k \<Rightarrow> single_plain (electricity_calculate reg conv g a) (k * cf)) \<and>
         stationary_calculate reg conv g a = stationary_calculate [] conv g a \<and>
         mobile_calculate reg conv g a = mobile_calculate [] conv g a \<and>
         fugitive_calculate reg conv g a = fugitive_calculate [] conv g a \<and>
         process_calculate reg g a = process_calculate [] g a \<and>
         scope3_calculate reg conv g a = scope3_calculate [] conv g a \<and>
         electricity_calculate reg conv g a = electricity_calculate [] conv g a"
proof -
  have "single_plain (stationary_calculate reg conv g a) (a_quantity a * cf)"
    using assms
    by (simp add: stationary_calculate_def single_plain_def custom_result_def result_of_def)
  moreover have "single_plain (mobile_calculate reg conv g a) (a_quantity a * cf)"
    using assms
    by (simp add: mobile_calculate_def single_plain_def custom_result_def result_of_def)
  moreover have "single_plain (fugitive_calculate reg conv g a) (a_quantity a * cf)"
    using assms
    by (simp add: fugitive_calculate_def single_plain_def custom_result_def result_of_def)
  moreover have "single_plain (process_calculate reg g a) (a_quantity a * cf)"
    using assms
    by (simp add: process_calculate_def single_plain_def custom_result_def result_of_def)
  moreover have "single_plain (scope3_calculate reg conv g a) (a_quantity a * cf)"
    using assms
    by (simp add: scope3_calculate_def calculate_custom_def single_plain_def result_of_def)
  moreover have "case quantity_kwh conv a of
            None \<Rightarrow> electricity_calculate reg conv g a = Inl (CannotConvert (a_unit a) ''kWh'')
          | Some k \<Rightarrow> single_plain (electricity_calculate reg conv g a) (k * cf)"
    using assms
    by (cases "conv (a_quantity a) (a_unit a) ''kWh''")
       (simp_all add: electricity_calculate_def quantity_kwh_def convert_or_raise_def
          single_plain_def result_of_def Let_def)
  moreover have "stationary_calculate reg conv g a = stationary_calculate [] conv g a"
    using assms by (simp add: stationary_calculate_def)
  moreover have "mobile_calculate reg conv g a = mobile_calculate [] conv g a"
    using assms by (simp add: mobile_calculate_def)
  moreover have "fugitive_calculate reg conv g a = fugitive_calculate [] conv g a"
    using assms by (simp add: fugitive_calculate_def)
  moreover have "process_calculate reg g a = process_calculate [] g a"
    using assms by (simp add: process_calculate_def)
  moreover have "scope3_calculate reg conv g a = scope3_calculate [] conv g a"
    using assms by (simp add: scope3_calculate_def)
  moreover have "electricity_calculate reg conv g a = electricity_calculate [] conv g a"
    using assms
    by (cases "conv (a_quantity a) (a_unit a) ''kWh''")
       (simp_all add: electricity_calculate_def convert_or_raise_def)
  ultimately show ?thesis by blast
qed

theorem custom_factor_override_witness:
  "totals_of (electricity_calculate uk_registry mwh_conv AR5
      (mwh_activity \<lparr> a_unit := ''KWH'' \<rparr>)) = Inr [1] \<and>
   totals_of (stationary_calculate uk_registry no_conv AR5
      (mwh_activity \<lparr> a_scope := SCOPE_1 \<rparr>)) = Inr [1]"
proof -
  have h: "a_custom_factor (mwh_activity \<lparr> a_unit := ''KWH'' \<rparr>) = Some (1 / 2)"
          "a_custom_factor (mwh_activity \<lparr> a_scope := SCOPE_1 \<rparr>) = Some (1 / 2)"
    by (simp_all add: mwh_activity_def activity_def)
  have k: "quantity_kwh mwh_conv (mwh_activity \<lparr> a_unit := ''KWH'' \<rparr>) = Some 2"
    by (simp add: quantity_kwh_def mwh_activity_def activity_def lower_def lower_char_def)
  have q: "a_quantity (mwh_activity \<lparr> a_scope := SCOPE_1 \<rparr>) = 2"
    by (simp add: mwh_activity_def activity_def)
  from custom_factor_override [OF h(1), of uk_registry mwh_conv AR5]
  have "case quantity_kwh mwh_conv (mwh_activity \<lparr> a_unit := ''KWH'' \<rparr>) of
          None \<Rightarrow> electricity_calculate uk_registry mwh_conv AR5
                    (mwh_activity \<lparr> a_unit := ''KWH'' \<rparr>) =
                  Inl (CannotConvert (a_unit (mwh_activity \<lparr> a_unit := ''KWH'' \<rparr>)) ''kWh'')
        | Some k \<Rightarrow> single_plain (electricity_calculate uk_registry mwh_conv AR5
                    (mwh_activity \<lparr> a_unit := ''KWH'' \<rparr>)) (k * (1 / 2))"
    by blast
  then have e: "single_plain (electricity_calculate uk_registry mwh_conv AR5
                    (mwh_activity \<lparr> a_unit := ''KWH'' \<rparr>)) 1"
    by (simp add: k)
  from custom_factor_override [OF h(2), of uk_registry no_conv AR5]
  have "single_plain (stationary_calculate uk_registry no_conv AR5
          (mwh_activity \<lparr> a_scope := SCOPE_1 \<rparr>))
          (a_quantity (mwh_activity \<lparr> a_scope := SCOPE_1 \<rparr>) * (1 / 2))"
    by blast
  then have s: "single_plain (stationary_calculate uk_registry no_conv AR5
          (mwh_activity \<lparr> a_scope := SCOPE_1 \<rparr>)) 1"
    by (simp add: q)
  from single_plain_totals [OF e] single_plain_totals [OF s] show ?thesis
    by simp
qed

theorem custom_factor_electricity_converts:
  "a_custom_factor mwh_activity = Some (1 / 2) \<and> a_quantity mwh_activity = 2 \<and>
   totals_of (electricity_calculate [] mwh_conv AR5 mwh_activity) = Inr [1000] \<and>
   electricity_calculate [] no_conv AR5 mwh_activity = Inl (CannotConvert ''MWh'' ''kWh'')"
  by (simp add: electricity_calculate_def mwh_activity_def activity_def mwh_conv_def no_conv_def
        convert_or_raise_def totals_of_def result_of_def lower_def lower_char_def)

section \<open>Dual reporting of the electricity calculator\<close>

text \<open>
  C2.  A registry that holds only the DEFRA electricity factor for the UK, and a UK
  activity of 1000 kWh that asks for DEFRA factors and has no custom factor: the
  location-based resolution finds nothing (no Ember factor for the country, no factor for
  the region US), the market-based resolution finds the DEFRA factor, and \<open>calculate\<close>
  returns one result, tagged market-based.
\<close>

theorem electricity_market_only:
  "find_location_factor uk_registry uk_activity = None \<and>
   map_option ef_id (find_market_factor uk_registry uk_activity) = Some ''defra_elec_uk_kwh'' \<and>
   map_sum id (map r_scope2_method) (electricity_calculate uk_registry no_conv AR5 uk_activity) =
     Inr [Some MARKET_BASED]"
proof -
  have l: "lower ''UK'' = ''uk''" "lower ''US'' = ''us''" "lower ''kWh'' = ''kwh''"
    by (simp_all add: lower_def lower_char_def)
  have s: "search uk_registry
             (no_args \<lparr> q_category := Some ''electricity'', q_fuel_type := None,
                q_region := Some ''UK'', q_activity_unit := Some ''kWh'',
                q_source := Some DEFRA, q_limit := 1 \<rparr>) = uk_registry"
    by (simp add: search_def apply_filters_def no_args_def by_source_def by_category_def
          by_fuel_type_def by_region_def by_scope_def by_activity_unit_def by_tags_def
          py_take_def uk_registry_def factor_def or_str_def l)
  have e: "search uk_registry
             (no_args \<lparr> q_category := Some ''electricity'', q_fuel_type := None,
                q_region := Some ''UK'', q_activity_unit := Some ''kWh'',
                q_source := Some EMBER, q_limit := 1 \<rparr>) = []"
    by (simp add: search_def apply_filters_def no_args_def by_source_def by_category_def
          by_fuel_type_def by_region_def by_scope_def by_activity_unit_def by_tags_def
          py_take_def uk_registry_def factor_def)
  have u: "search uk_registry
             (no_args \<lparr> q_category := Some ''electricity'', q_fuel_type := None,
                q_region := Some ''US'', q_activity_unit := Some ''kWh'',
                q_source := None, q_limit := 1 \<rparr>) = []"
    by (simp add: search_def apply_filters_def no_args_def by_source_def by_category_def
          by_fuel_type_def by_region_def by_scope_def by_activity_unit_def by_tags_def
          py_take_def uk_registry_def factor_def or_str_def l)
  have loc: "find_location_factor uk_registry uk_activity = None"
    by (simp add: find_location_factor_def find_factor_def uk_activity_def activity_def e u)
  have mkt: "find_market_factor uk_registry uk_activity = Some (hd uk_registry)"
    by (simp add: find_market_factor_def find_factor_def uk_activity_def activity_def or_opt_def s)
       (simp add: uk_registry_def)
  have g: "get_gwp (GasEnum CO2) AR5 = Inr 1" "get_gwp (GasEnum CH4) AR5 = Inr 28"
          "get_gwp (GasEnum N2O) AR5 = Inr 265"
    by (simp_all add: get_gwp_def AR5_GWP_def)
  have f: "a_unit uk_activity = ''kWh''" "a_quantity uk_activity = 1000"
          "a_custom_factor uk_activity = None"
    by (simp_all add: uk_activity_def activity_def)
  have "\<exists>r. electricity_result uk_activity AR5 1000 MARKET_BASED [MarketProxyNote]
               (hd uk_registry) = Inr r \<and> r_scope2_method r = Some MARKET_BASED"
    by (simp add: electricity_result_def per_gas_def build_gas_breakdown_def to_co2e_def g
          uk_registry_def factor_def result_of_def)
  then obtain r where
    r: "electricity_result uk_activity AR5 1000 MARKET_BASED [MarketProxyNote]
          (hd uk_registry) = Inr r" "r_scope2_method r = Some MARKET_BASED"
    by blast
  have c: "map_sum id (map r_scope2_method)
             (electricity_calculate uk_registry no_conv AR5 uk_activity) = Inr [Some MARKET_BASED]"
    by (simp add: electricity_calculate_def f l loc mkt r)
  from loc mkt c show ?thesis
    by (simp add: uk_registry_def factor_def)
qed

section \<open>Scoring and order of the free-text search\<close>



section \<open>The filters of the search\<close>

text \<open>
  C4, as the code has it.  Without tags and without a query, \<open>search\<close> is the slice to
  \<open>limit\<close> of the factors that satisfy every supplied criterion (\<open>matches\<close>): source,
  category and scope by equality, the category as it is written; fuel type and region by
  equality of the lower-cased strings, for a factor whose field is set and not empty;
  activity unit by equality of the lower-cased strings.  When the limit is at least the
  size of the registry, a factor is in the result iff it is in the registry and satisfies
  every supplied criterion.  Two calls that differ only in the letter case of fuel type,
  region or activity unit return the same list.
\<close>

theorem search_filters_conjunction:
  assumes "q_tags args = None" and "q_query args = []"
  shows "search fs args = py_take (q_limit args) (filter (matches args) fs) \<and>
         (int (length fs) \<le> q_limit args \<longrightarrow>
            set (search fs args) = {f \<in> set fs. matches args f}) \<and>
         (same_up_to_case args args' \<longrightarrow> search fs args' = search fs args)"
proof -
  have s: "search fs args = py_take (q_limit args) (filter (matches args) fs)"
    using assms by (simp add: search_def Let_def apply_filters_eq)
  have l: "int (length fs) \<le> q_limit args \<longrightarrow>
            set (search fs args) = {f \<in> set fs. matches args f}"
  proof
    assume b: "int (length fs) \<le> q_limit args"
    have "length (filter (matches args) fs) \<le> length fs" by simp
    with b have "0 \<le> q_limit args" and "length (filter (matches args) fs) \<le> nat (q_limit args)"
      by linarith+
    then have "py_take (q_limit args) (filter (matches args) fs) = filter (matches args) fs"
      by (simp add: py_take_def)
    then show "set (search fs args) = {f \<in> set fs. matches args f}"
      by (simp add: s)
  qed
  have c: "same_up_to_case args args' \<longrightarrow> search fs args' = search fs args"
  proof
    assume u: "same_up_to_case args args'"
    then have t: "q_tags args' = None" and q: "q_query args' = []"
      and m: "q_limit args' = q_limit args"
      using assms by (simp_all add: same_up_to_case_def)
    have "matches args' = matches args"
      using matches_same_up_to_case [OF u] by (simp add: fun_eq_iff)
    then have "filter (matches args') fs = filter (matches args) fs"
      by (simp only:)
    then show "search fs args' = search fs args"
      using assms t q m by (simp add: search_def Let_def apply_filters_eq)
  qed
  from s l c show ?thesis by blast
qed

theorem search_filters_conjunction_witness:
  "search gas_registry (no_args \<lparr> q_fuel_type := Some ''GAS'', q_activity_unit := Some ''KG'' \<rparr>) =
     [gas_registry ! 2] \<and>
   search gas_registry (no_args \<lparr> q_fuel_type := Some ''gas'', q_activity_unit := Some ''kg'' \<rparr>) =
     [gas_registry ! 2]"
proof -
  have h: "q_tags (no_args \<lparr> q_fuel_type := Some ''gas'', q_activity_unit := Some ''kg'' \<rparr>) = None"
          "q_query (no_args \<lparr> q_fuel_type := Some ''gas'', q_activity_unit := Some ''kg'' \<rparr>) = []"
    by (simp_all add: no_args_def)
  have u: "same_up_to_case
             (no_args \<lparr> q_fuel_type := Some ''gas'', q_activity_unit := Some ''kg'' \<rparr>)
             (no_args \<lparr> q_fuel_type := Some ''GAS'', q_activity_unit := Some ''KG'' \<rparr>)"
    by (simp add: same_up_to_case_def no_args_def lower_def lower_char_def)
  have f: "filter (matches (no_args \<lparr> q_fuel_type := Some ''gas'', q_activity_unit := Some ''kg'' \<rparr>))
             gas_registry = [gas_registry ! 2]"
    by (simp add: matches_def no_args_def gas_registry_def factor_def lower_def lower_char_def
          or_str_def)
  from search_filters_conjunction [OF h, of gas_registry
         "no_args \<lparr> q_fuel_type := Some ''GAS'', q_activity_unit := Some ''KG'' \<rparr>"] u f
  show ?thesis
    by (simp add: py_take_def no_args_def)
qed

theorem category_filter_case_sensitive:
  "lower ''Electricity'' = lower ''electricity'' \<and>
   map ef_id (search uk_registry (no_args \<lparr> q_category := Some ''electricity'' \<rparr>)) =
     [''defra_elec_uk_kwh''] \<and>
   search uk_registry (no_args \<lparr> q_category := Some ''Electricity'' \<rparr>) = [] \<and>
   map ef_fuel_type blank_fuel_registry = [Some []] \<and>
   search blank_fuel_registry (no_args \<lparr> q_fuel_type := Some [] \<rparr>) = []"
  by (simp add: search_def apply_filters_def no_args_def by_source_def by_category_def
        by_fuel_type_def by_region_def by_scope_def by_activity_unit_def by_tags_def
        py_take_def uk_registry_def blank_fuel_registry_def factor_def lower_def lower_char_def)

section \<open>Failed unit conversions\<close>




section \<open>Properties of the GWP lookup\<close>

text \<open>
  C6.  For every gas identifier and both assessments, \<open>get_gwp\<close> returns 1 when the
  lower-cased identifier is "co2e", whatever the assessment and whether or not the table
  has that key; and it fails, with the unknown-gas error, exactly when the lower-cased
  identifier is neither "co2e" nor a key of the selected assessment's table.
\<close>

theorem get_gwp_contract:
  "(gas_key g = ''co2e'' \<longrightarrow> get_gwp g a = Inr 1) \<and>
   ((\<exists>e. get_gwp g a = Inl e) \<longleftrightarrow>
      (gas_key g \<noteq> ''co2e'' \<and> gas_key g \<notin> dom (GWP_TABLES a))) \<and>
   (\<forall>e. get_gwp g a = Inl e \<longrightarrow> error_kind e = UnknownGasKind)"
  by (auto simp: get_gwp_def Let_def split: option.splits)

theorem get_gwp_contract_witness:
  "get_gwp (GasStr ''CO2e'') AR6 = Inr 1 \<and>
   (\<exists>e. get_gwp (GasStr ''R-999'') AR5 = Inl e) \<and>
   gas_key (GasStr ''R-999'') \<notin> dom (GWP_TABLES AR5)"
proof -
  have k: "gas_key (GasStr ''CO2e'') = ''co2e''"
    by (simp add: lower_def lower_char_def)
  have n: "gas_key (GasStr ''R-999'') \<noteq> ''co2e'' \<and>
           gas_key (GasStr ''R-999'') \<notin> dom (GWP_TABLES AR5)"
    by (simp add: lower_def lower_char_def AR5_GWP_def dom_def)
  from get_gwp_contract [of "GasStr ''CO2e''" AR6] k
  have "get_gwp (GasStr ''CO2e'') AR6 = Inr 1" by blast
  moreover from get_gwp_contract [of "GasStr ''R-999''" AR5] n
  have "\<exists>e. get_gwp (GasStr ''R-999'') AR5 = Inl e" by blast
  ultimately show ?thesis using n by blast
qed

section \<open>The totals of an inventory\<close>

text \<open>
  C7.  In an inventory built from a fresh one by any sequence of \<open>add_result\<close> calls, the
  total of each of the four buckets is the sum of the totals of the results it holds, and
  the headline total is the sum of the totals of the Scope 1, location-based Scope 2 and
  Scope 3 buckets; the market-based bucket is left out: the headline total is the sum
  over the added results that are not market-based Scope 2 results.
\<close>

theorem inventory_totals_invariant:
  "sr_total_co2e_kg (inv_scope1 (add_results (new_inventory n y) rs)) =
     sum_totals (sr_results (inv_scope1 (add_results (new_inventory n y) rs))) \<and>
   sr_total_co2e_kg (inv_scope2_location (add_results (new_inventory n y) rs)) =
     sum_totals (sr_results (inv_scope2_location (add_results (new_inventory n y) rs))) \<and>
   sr_total_co2e_kg (inv_scope2_market (add_results (new_inventory n y) rs)) =
     sum_totals (sr_results (inv_scope2_market (add_results (new_inventory n y) rs))) \<and>
   sr_total_co2e_kg (inv_scope3 (add_results (new_inventory n y) rs)) =
     sum_totals (sr_results (inv_scope3 (add_results (new_inventory n y) rs))) \<and>
   total_co2e_kg (add_results (new_inventory n y) rs) =
     sr_total_co2e_kg (inv_scope1 (add_results (new_inventory n y) rs))
       + sr_total_co2e_kg (inv_scope2_location (add_results (new_inventory n y) rs))
       + sr_total_co2e_kg (inv_scope3 (add_results (new_inventory n y) rs)) \<and>
   total_co2e_kg (add_results (new_inventory n y) rs) =
     sum_totals (filter (\<lambda>r. \<not> is_market r) rs)"
  by (simp add: add_results_scope1 add_results_scope3 add_results_market add_results_location
        new_inventory_buckets total_co2e_kg_def sum_totals_split)

theorem inventory_totals_invariant_witness:
  "total_co2e_kg (add_results (new_inventory ''inv'' None)
      [sample_result SCOPE_1 None 10, sample_result SCOPE_2 (Some MARKET_BASED) 7,
       sample_result SCOPE_2 (Some LOCATION_BASED) 5, sample_result SCOPE_3 None 2]) = 17 \<and>
   sr_total_co2e_kg (inv_scope2_market (add_results (new_inventory ''inv'' None)
      [sample_result SCOPE_1 None 10, sample_result SCOPE_2 (Some MARKET_BASED) 7,
       sample_result SCOPE_2 (Some LOCATION_BASED) 5, sample_result SCOPE_3 None 2])) = 7"
  using inventory_totals_invariant [of "''inv''" None
      "[sample_result SCOPE_1 None 10, sample_result SCOPE_2 (Some MARKET_BASED) 7,
        sample_result SCOPE_2 (Some LOCATION_BASED) 5, sample_result SCOPE_3 None 2]"]
  by (simp add: sum_totals_def is_market_def sample_result_def add_results_def
        scope_add_result_def new_inventory_def new_scope_result_def)

section \<open>Routing of Scope 2 results\<close>

text \<open>
  C8.  \<open>add_result\<close> appends a Scope 2 result to the market-based bucket iff its
  \<open>scope2_method\<close> is market-based, and leaves the location-based bucket as it was; any
  other Scope 2 result, one with no method included, is appended to the location-based
  bucket and the market-based bucket is left as it was.  The Scope 1 and Scope 3 buckets
  are not touched.
\<close>

theorem add_result_scope2_routing:
  "r_scope r = SCOPE_2 \<Longrightarrow>
     (r_scope2_method r = Some MARKET_BASED \<longrightarrow>
        inv_scope2_market (add_result iv r) = scope_add_result (inv_scope2_market iv) r \<and>
        inv_scope2_location (add_result iv r) = inv_scope2_location iv) \<and>
     (r_scope2_method r \<noteq> Some MARKET_BASED \<longrightarrow>
        inv_scope2_location (add_result iv r) = scope_add_result (inv_scope2_location iv) r \<and>
        inv_scope2_market (add_result iv r) = inv_scope2_market iv) \<and>
     (sr_results (inv_scope2_market (add_result iv r)) = sr_results (inv_scope2_market iv) @ [r]
        \<longleftrightarrow> r_scope2_method r = Some MARKET_BASED) \<and>
     inv_scope1 (add_result iv r) = inv_scope1 iv \<and>
     inv_scope3 (add_result iv r) = inv_scope3 iv"
  by (simp add: scope_add_result_def)

theorem add_result_scope2_routing_witness:
  "sr_results (inv_scope2_location
      (add_result (new_inventory ''inv'' None) (sample_result SCOPE_2 None 5))) =
     [sample_result SCOPE_2 None 5] \<and>
   sr_results (inv_scope2_market
      (add_result (new_inventory ''inv'' None) (sample_result SCOPE_2 None 5))) = [] \<and>
   sr_results (inv_scope2_market
      (add_result (new_inventory ''inv'' None) (sample_result SCOPE_2 (Some MARKET_BASED) 7))) =
     [sample_result SCOPE_2 (Some MARKET_BASED) 7] \<and>
   sr_results (inv_scope2_location
      (add_result (new_inventory ''inv'' None) (sample_result SCOPE_2 (Some MARKET_BASED) 7))) = []"
proof -
  have s1: "r_scope (sample_result SCOPE_2 None 5) = SCOPE_2"
    and m1: "r_scope2_method (sample_result SCOPE_2 None 5) \<noteq> Some MARKET_BASED"
    and s2: "r_scope (sample_result SCOPE_2 (Some MARKET_BASED) 7) = SCOPE_2"
    and m2: "r_scope2_method (sample_result SCOPE_2 (Some MARKET_BASED) 7) = Some MARKET_BASED"
    by (simp_all add: sample_result_def)
  have e: "sr_results (inv_scope2_location (new_inventory ''inv'' None)) = []"
          "sr_results (inv_scope2_market (new_inventory ''inv'' None)) = []"
    by (simp_all add: new_inventory_def new_scope_result_def)
  from add_result_scope2_routing [OF s1, of "new_inventory ''inv'' None"] m1 e
       add_result_scope2_routing [OF s2, of "new_inventory ''inv'' None"] m2
  show ?thesis by (simp add: scope_add_result_def)
qed

section \<open>Outcomes of a calculation\<close>




section \<open>Spend-based calculation without a NAICS code\<close>

text \<open>
  C10, as the code has it.  For an activity with \<open>spend_amount = s > 0\<close> and no NAICS code
  (absent or empty), the outcome of the spend-based path is decided by the EXIOBASE
  factors of the registry alone: without any, it is the no-matching-factor error;
  otherwise it is one result for the first EXIOBASE factor in registry order, with total
  \<open>s\<close> times that factor's \<open>co2e_factor\<close>, or its \<open>co2_factor\<close> when \<open>co2e_factor\<close> is
  absent, carrying the factor's id, the quantity \<open>s\<close> in USD and no gas breakdown.
  Without a custom factor, \<open>calculate\<close> takes this path only for an activity that has a
  Scope 3 category; without one it raises the validation error before any lookup.
\<close>

theorem spend_based_without_naics:
  assumes "a_spend_amount a = Some s" and "0 < s"
    and "a_naics_code a = None \<or> a_naics_code a = Some []"
  shows "(filter (\<lambda>f. ef_source f = EXIOBASE) reg = [] \<longrightarrow>
            calculate_spend_based reg g a = Inl (NoFactorSpend (a_naics_code a))) \<and>
         (filter (\<lambda>f. ef_source f = EXIOBASE) reg \<noteq> [] \<longrightarrow>
            (\<exists>r. calculate_spend_based reg g a = Inr [r] \<and>
                 r_total_co2e_kg r =
                   s * (case ef_co2e_factor (hd (filter (\<lambda>f. ef_source f = EXIOBASE) reg)) of
                          Some c \<Rightarrow> c
                        | None \<Rightarrow> ef_co2_factor (hd (filter (\<lambda>f. ef_source f = EXIOBASE) reg))) \<and>
                 r_factor_id r = Some (ef_id (hd (filter (\<lambda>f. ef_source f = EXIOBASE) reg))) \<and>
                 r_gas_breakdown r = [] \<and> r_activity_quantity r = Some s \<and>
                 r_activity_unit r = Some ''USD'' \<and> r_scope r = SCOPE_3 \<and>
                 r_scope3_category r = a_scope3_category a)) \<and>
         calculate_spend_based reg g a =
           calculate_spend_based (filter (\<lambda>f. ef_source f = EXIOBASE) reg) g a \<and>
         (a_custom_factor a = None \<longrightarrow>
            scope3_calculate reg conv g a =
              (case a_scope3_category a of
                 None \<Rightarrow> Inl Scope3CategoryRequired
               | Some c \<Rightarrow> calculate_spend_based reg g a))"
proof -
  from assms(3) have nt: "\<not> truthy (a_naics_code a)"
    by auto
  then have q: "or_str (a_naics_code a) [] = []"
    by (rule or_str_falsy)
  have e: "calculate_spend_based fs g a =
           (case filter (\<lambda>f. ef_source f = EXIOBASE) fs of
              [] \<Rightarrow> Inl (NoFactorSpend (a_naics_code a))
            | f # _ \<Rightarrow>
                Inr [scope3_result a g (a_scope3_category a) f (s * co2e_or_co2 f) s ''USD''
                       (SpendBasedNote (co2e_or_co2 f))])" for fs
    using assms(1,2) nt
    by (cases "filter (\<lambda>f. ef_source f = EXIOBASE) fs")
       (simp_all add: calculate_spend_based_def q search_source_only first_of_def Let_def)
  have n: "filter (\<lambda>f. ef_source f = EXIOBASE) reg = [] \<longrightarrow>
            calculate_spend_based reg g a = Inl (NoFactorSpend (a_naics_code a))"
    by (simp add: e)
  have r: "filter (\<lambda>f. ef_source f = EXIOBASE) reg \<noteq> [] \<longrightarrow>
            (\<exists>r. calculate_spend_based reg g a = Inr [r] \<and>
                 r_total_co2e_kg r =
                   s * (case ef_co2e_factor (hd (filter (\<lambda>f. ef_source f = EXIOBASE) reg)) of
                          Some c \<Rightarrow> c
                        | None \<Rightarrow> ef_co2_factor (hd (filter (\<lambda>f. ef_source f = EXIOBASE) reg))) \<and>
                 r_factor_id r = Some (ef_id (hd (filter (\<lambda>f. ef_source f = EXIOBASE) reg))) \<and>
                 r_gas_breakdown r = [] \<and> r_activity_quantity r = Some s \<and>
                 r_activity_unit r = Some ''USD'' \<and> r_scope r = SCOPE_3 \<and>
                 r_scope3_category r = a_scope3_category a)"
    by (cases "filter (\<lambda>f. ef_source f = EXIOBASE) reg")
       (auto simp: e scope3_result_def result_of_def co2e_or_co2_def split: option.splits)
  have i: "calculate_spend_based reg g a =
           calculate_spend_based (filter (\<lambda>f. ef_source f = EXIOBASE) reg) g a"
    by (simp add: e [of reg] e [of "filter (\<lambda>f. ef_source f = EXIOBASE) reg"])
  have d: "a_custom_factor a = None \<longrightarrow>
            scope3_calculate reg conv g a =
              (case a_scope3_category a of
                 None \<Rightarrow> Inl Scope3CategoryRequired
               | Some c \<Rightarrow> calculate_spend_based reg g a)"
    using assms(1) by (auto simp: scope3_calculate_def split: option.splits)
  from n r i d show ?thesis by blast
qed

theorem spend_based_without_naics_witness:
  "totals_of (scope3_calculate exio_registry no_conv AR5 spend_activity) = Inr [100] \<and>
   totals_of (calculate_spend_based (rev exio_registry) AR5 spend_activity) = Inr [600] \<and>
   ef_co2e_factor (hd (filter (\<lambda>f. ef_source f = EXIOBASE) (rev exio_registry))) = None \<and>
   calculate_spend_based [hd exio_registry] AR5 spend_activity = Inl (NoFactorSpend None)"
proof -
  have h: "a_spend_amount spend_activity = Some 200" "(0::real) < 200"
          "a_naics_code spend_activity = None \<or> a_naics_code spend_activity = Some []"
    by (simp_all add: spend_activity_def activity_def)
  have c: "a_custom_factor spend_activity = None"
          "a_scope3_category spend_activity = Some PURCHASED_GOODS_SERVICES"
          "a_naics_code spend_activity = None"
    by (simp_all add: spend_activity_def activity_def)
  have f1: "filter (\<lambda>f. ef_source f = EXIOBASE) exio_registry \<noteq> [] \<and>
            ef_co2e_factor (hd (filter (\<lambda>f. ef_source f = EXIOBASE) exio_registry)) =
              Some (1 / 2)"
    by (simp add: exio_registry_def factor_def)
  have f2: "filter (\<lambda>f. ef_source f = EXIOBASE) (rev exio_registry) \<noteq> [] \<and>
            ef_co2e_factor (hd (filter (\<lambda>f. ef_source f = EXIOBASE) (rev exio_registry))) =
              None \<and>
            ef_co2_factor (hd (filter (\<lambda>f. ef_source f = EXIOBASE) (rev exio_registry))) = 3"
    by (simp add: exio_registry_def factor_def)
  have f3: "filter (\<lambda>f. ef_source f = EXIOBASE) [hd exio_registry] = []"
    by (simp add: exio_registry_def factor_def)
  note t = spend_based_without_naics [OF h, of exio_registry AR5 no_conv]
  from t [THEN conjunct2, THEN conjunct1] f1
  obtain r where r: "calculate_spend_based exio_registry AR5 spend_activity = Inr [r]"
    "r_total_co2e_kg r = 200 * (1 / 2)"
    by auto
  from t [THEN conjunct2, THEN conjunct2, THEN conjunct2] c
  have "scope3_calculate exio_registry no_conv AR5 spend_activity =
          calculate_spend_based exio_registry AR5 spend_activity"
    by simp
  with r have t1: "totals_of (scope3_calculate exio_registry no_conv AR5 spend_activity) =
                   Inr [100]"
    by (simp add: totals_of_def)
  note u = spend_based_without_naics [OF h, of "rev exio_registry" AR5 no_conv]
  from u [THEN conjunct2, THEN conjunct1] f2
  obtain r' where "calculate_spend_based (rev exio_registry) AR5 spend_activity = Inr [r']"
    "r_total_co2e_kg r' = 200 * 3"
    by auto
  then have t2: "totals_of (calculate_spend_based (rev exio_registry) AR5 spend_activity) =
                   Inr [600]"
    by (simp add: totals_of_def)
  note v = spend_based_without_naics [OF h, of "[hd exio_registry]" AR5 no_conv]
  from v [THEN conjunct1] f3 c
  have t3: "calculate_spend_based [hd exio_registry] AR5 spend_activity =
              Inl (NoFactorSpend None)"
    by simp
  from t1 t2 t3 f2 show ?thesis by simp
qed

theorem spend_without_category_rejected:
  "a_spend_amount (spend_activity \<lparr> a_scope3_category := None \<rparr>) = Some 200 \<and>
   a_custom_factor (spend_activity \<lparr> a_scope3_category := None \<rparr>) = None \<and>
   a_naics_code (spend_activity \<lparr> a_scope3_category := None \<rparr>) = None \<and>
   map ef_id (filter (\<lambda>f. ef_source f = EXIOBASE) exio_registry) = [''exio_a'', ''exio_b''] \<and>
   scope3_calculate exio_registry no_conv AR5 (spend_activity \<lparr> a_scope3_category := None \<rparr>) =
     Inl Scope3CategoryRequired"
  by (simp add: scope3_calculate_def spend_activity_def activity_def exio_registry_def
        factor_def)

end
